theory Spec2Isabelle
  imports Complex_Main "HOL-Library.Log_Nat"
begin

section \<open>JavaScript numbers\<close>

text \<open>
  The numbers of the program are JavaScript numbers: IEEE 754 doubles. A finite value is
  a real; the rounding of the arithmetic is defined below (double precision).
  \<open>Math.round\<close> rounds to the nearest integer, a tie going up: it is
  \<open>floor (x + 1/2)\<close>, computed without rounding error.
\<close>

definition Math_round :: "real \<Rightarrow> real" where
  "Math_round x = of_int \<lfloor>x + 1 / 2\<rfloor>"

subsection \<open>Special values\<close>

text \<open>
  Division by zero and arithmetic on an empty data set do not raise in JavaScript: they
  yield \<open>Infinity\<close>, \<open>-Infinity\<close> or \<open>NaN\<close>. Where the program can produce such a
  value it is computed in \<open>number\<close>; signed zeros are not distinguished.
  Every comparison with \<open>NaN\<close> is false and every operation on it gives \<open>NaN\<close>.
\<close>

datatype number = NaN | NInf | Num real | PInf

fun num_div :: "number \<Rightarrow> number \<Rightarrow> number" where
  "num_div NaN _ = NaN"
| "num_div _ NaN = NaN"
| "num_div (Num a) (Num b) =
     (if b \<noteq> 0 then Num (a / b) else if a > 0 then PInf else if a < 0 then NInf else NaN)"
| "num_div (Num a) _ = Num 0"
| "num_div PInf (Num b) = (if b \<ge> 0 then PInf else NInf)"
| "num_div NInf (Num b) = (if b \<ge> 0 then NInf else PInf)"
| "num_div _ _ = NaN"

fun num_mul :: "number \<Rightarrow> number \<Rightarrow> number" where
  "num_mul NaN _ = NaN"
| "num_mul _ NaN = NaN"
| "num_mul (Num a) (Num b) = Num (a * b)"
| "num_mul (Num a) PInf = (if a > 0 then PInf else if a < 0 then NInf else NaN)"
| "num_mul (Num a) NInf = (if a > 0 then NInf else if a < 0 then PInf else NaN)"
| "num_mul PInf (Num b) = (if b > 0 then PInf else if b < 0 then NInf else NaN)"
| "num_mul NInf (Num b) = (if b > 0 then NInf else if b < 0 then PInf else NaN)"
| "num_mul PInf PInf = PInf"
| "num_mul NInf NInf = PInf"
| "num_mul _ _ = NInf"

fun num_sub :: "number \<Rightarrow> number \<Rightarrow> number" where
  "num_sub NaN _ = NaN"
| "num_sub _ NaN = NaN"
| "num_sub (Num a) (Num b) = Num (a - b)"
| "num_sub PInf PInf = NaN"
| "num_sub NInf NInf = NaN"
| "num_sub PInf _ = PInf"
| "num_sub NInf _ = NInf"
| "num_sub _ PInf = NInf"
| "num_sub _ NInf = PInf"

fun num_lt :: "number \<Rightarrow> number \<Rightarrow> bool" where
  "num_lt NaN _ = False"
| "num_lt _ NaN = False"
| "num_lt (Num a) (Num b) = (a < b)"
| "num_lt PInf _ = False"
| "num_lt _ NInf = False"
| "num_lt _ _ = True"

fun num_le :: "number \<Rightarrow> number \<Rightarrow> bool" where
  "num_le NaN _ = False"
| "num_le _ NaN = False"
| "num_le (Num a) (Num b) = (a \<le> b)"
| "num_le NInf _ = True"
| "num_le _ PInf = True"
| "num_le _ _ = False"

fun Math_max :: "number \<Rightarrow> number \<Rightarrow> number" where
  "Math_max NaN _ = NaN"
| "Math_max _ NaN = NaN"
| "Math_max a b = (if num_lt a b then b else a)"

fun Math_min :: "number \<Rightarrow> number \<Rightarrow> number" where
  "Math_min NaN _ = NaN"
| "Math_min _ NaN = NaN"
| "Math_min a b = (if num_lt b a then b else a)"

fun Math_round_number :: "number \<Rightarrow> number" where
  "Math_round_number (Num x) = Num (Math_round x)"
| "Math_round_number v = v"


fun num_add :: "number \<Rightarrow> number \<Rightarrow> number" where
  "num_add NaN _ = NaN"
| "num_add _ NaN = NaN"
| "num_add (Num a) (Num b) = Num (a + b)"
| "num_add PInf NInf = NaN"
| "num_add NInf PInf = NaN"
| "num_add PInf _ = PInf"
| "num_add NInf _ = NInf"
| "num_add _ PInf = PInf"
| "num_add _ NInf = NInf"

text \<open>Truthiness of a number: \<open>NaN\<close> and 0 are falsy.\<close>

fun truthyNumber :: "number \<Rightarrow> bool" where
  "truthyNumber NaN = False"
| "truthyNumber (Num x) = (x \<noteq> 0)"
| "truthyNumber v = True"

subsection \<open>Double precision\<close>

text \<open>
  A JavaScript number is an IEEE 754 double: a multiple of \<open>2^(e - 52)\<close>, where
  \<open>2^e\<close> is the power of two at or below its magnitude and \<open>e\<close> is at least -1022
  (below \<open>2^(-1022)\<close> the spacing stays \<open>2^(-1074)\<close>), of magnitude below \<open>2^1024\<close>.
  Every arithmetic operation returns the double nearest to the exact result, a tie going
  to the even multiple, and an infinity when that rounding reaches \<open>2^1024\<close>.

  \<open>binade x\<close> is the exponent \<open>e\<close> of a real \<open>x\<close>: the floor of its binary
  logarithm, computed from the bit length of an integer, and not below -1022.
  \<open>toDouble x\<close> is the double nearest to \<open>x\<close>.
\<close>

definition pow2 :: "int \<Rightarrow> real" where
  "pow2 k = (if 0 \<le> k then 2 ^ nat k else 1 / 2 ^ nat (- k))"

definition roundEven :: "real \<Rightarrow> int" where
  "roundEven t =
     (let f = \<lfloor>t\<rfloor>; d = t - of_int f
      in if d < 1 / 2 then f else if d > 1 / 2 then f + 1 else if even f then f else f + 1)"

definition binade :: "real \<Rightarrow> int" where
  "binade x =
     (if x = 0 then - 1022
      else max (if 1 \<le> \<bar>x\<bar> then bitlen \<lfloor>\<bar>x\<bar>\<rfloor> - 1 else - bitlen (\<lceil>1 / \<bar>x\<bar>\<rceil> - 1)) (- 1022))"

definition toDouble :: "real \<Rightarrow> number" where
  "toDouble x =
     (let u = pow2 (binade x - 52); r = of_int (roundEven (x / u)) * u
      in if pow2 1024 \<le> r then PInf else if r \<le> - pow2 1024 then NInf else Num r)"

definition isDouble :: "real \<Rightarrow> bool" where
  "isDouble x \<longleftrightarrow> toDouble x = Num x"

text \<open>
  The arithmetic operators of the language: the exact result, rounded. A numeric literal
  of the source denotes the double nearest to the decimal written.
\<close>

fun roundNumber :: "number \<Rightarrow> number" where
  "roundNumber (Num x) = toDouble x"
| "roundNumber v = v"

definition js_add :: "number \<Rightarrow> number \<Rightarrow> number" where
  "js_add a b = roundNumber (num_add a b)"

definition js_sub :: "number \<Rightarrow> number \<Rightarrow> number" where
  "js_sub a b = roundNumber (num_sub a b)"

definition js_mul :: "number \<Rightarrow> number \<Rightarrow> number" where
  "js_mul a b = roundNumber (num_mul a b)"

definition js_div :: "number \<Rightarrow> number \<Rightarrow> number" where
  "js_div a b = roundNumber (num_div a b)"

definition literal :: "real \<Rightarrow> number" where
  "literal x = toDouble x"


section \<open>helpers.js: calibration\<close>

text \<open>
  \<^verbatim>\<open>
  const convertMoistureToPercentage = (rawValue, dryValue, wetValue) => {
    if (rawValue <= wetValue) return 100;
    if (rawValue >= dryValue) return 0;
    const percentage = ((dryValue - rawValue) / (dryValue - wetValue)) * 100;
    return Math.round(Math.max(0, Math.min(100, percentage)));
  };
  \<close>
  The arguments are any numbers, \<open>NaN\<close> and the infinities included; the arithmetic
  is in double precision. \<open>interpolation\<close> is the value of \<open>percentage\<close>.
\<close>

definition interpolation :: "number \<Rightarrow> number \<Rightarrow> number \<Rightarrow> number" where
  "interpolation rawValue dryValue wetValue =
     js_mul (js_div (js_sub dryValue rawValue) (js_sub dryValue wetValue)) (Num 100)"

definition convertMoistureToPercentage :: "number \<Rightarrow> number \<Rightarrow> number \<Rightarrow> number" where
  "convertMoistureToPercentage rawValue dryValue wetValue =
     (if num_le rawValue wetValue then Num 100
      else if num_le dryValue rawValue then Num 0
      else Math_round_number
             (Math_max (Num 0) (Math_min (Num 100) (interpolation rawValue dryValue wetValue))))"


section \<open>aiService.js: the rule-based irrigation recommendation\<close>

text \<open>
  \<open>generateIrrigationRecommendation(sensorData, weatherData, farmSettings)\<close> reads of
  every element of \<open>sensorData\<close> the properties \<open>moistureLevel\<close>, \<open>quality\<close> and
  \<open>zone\<close>; of \<open>weatherData\<close> (which may be null) \<open>current.humidity\<close>,
  \<open>current.temperature\<close> and the rainfall of the first forecast entry; of
  \<open>farmSettings\<close> the property \<open>targetMoisture\<close>. Moisture, humidity, temperature,
  rainfall and target are finite numbers; an absent property is \<open>None\<close>. The
  quality of a reading is one of the four strings of the SensorReading schema.
\<close>

datatype quality = excellent | good | fair | poor

record reading =
  moistureLevel :: real
  quality :: quality
  zone :: "nat option"

text \<open>\<open>forecast\<close> holds the rainfall of each forecast day, or is absent.\<close>

record weatherData =
  current_humidity :: real
  current_temperature :: real
  forecast :: "real list option"

record farmSettings =
  targetMoisture :: "real option"

text \<open>
  The messages pushed onto \<open>reasoning\<close> are kept as structured values: the kind of
  message and the numbers interpolated into its text.
\<close>

datatype reason =
    Critical_moisture_level number real
  | Low_moisture_level number real
  | Moderate_moisture_level number real
  | High_humidity
  | Rain_expected real
  | High_temperature

record recommendation =
  action :: string
  confidence :: number
  reasoning :: "reason list"
  timing :: "string option"
  duration :: "number option"
  zones :: "nat list"
  waterAmount :: "number option"
  priority :: string

definition initial_recommendation :: recommendation where
  "initial_recommendation =
     \<lparr>action = ''none'', confidence = Num 0, reasoning = [], timing = None, duration = None,
      zones = [], waterAmount = None, priority = ''low''\<rparr>"

text \<open>
  \<^verbatim>\<open>const avgMoisture = sensorData.reduce((sum, reading) => sum + reading.moistureLevel, 0)
                           / sensorData.length;\<close>
  On an empty array this is 0/0.
\<close>

definition avgMoisture :: "reading list \<Rightarrow> number" where
  "avgMoisture sensorData =
     num_div (Num (foldl (\<lambda>sum reading. sum + moistureLevel reading) 0 sensorData))
             (Num (real (length sensorData)))"

text \<open>\<^verbatim>\<open>const targetMoisture = farmSettings.targetMoisture || 80;\<close> (0 is falsy)\<close>

definition targetMoistureOf :: "farmSettings \<Rightarrow> real" where
  "targetMoistureOf fs =
     (case targetMoisture fs of None \<Rightarrow> 80 | Some t \<Rightarrow> if t = 0 then 80 else t)"

text \<open>The \<open>if / else if\<close> chain on the moisture bands (lines 28-43).\<close>

definition analyzeMoisture :: "number \<Rightarrow> real \<Rightarrow> recommendation \<Rightarrow> recommendation" where
  "analyzeMoisture avg target r =
     (if num_lt avg (Num (target * 0.4)) then
        r\<lparr>action := ''irrigate_now'', confidence := Num 0.9, priority := ''critical'',
          reasoning := reasoning r @ [Critical_moisture_level (Math_round_number avg) target]\<rparr>
      else if num_lt avg (Num (target * 0.6)) then
        r\<lparr>action := ''irrigate_soon'', confidence := Num 0.7, priority := ''high'',
          reasoning := reasoning r @ [Low_moisture_level (Math_round_number avg) target]\<rparr>
      else if num_lt avg (Num (target * 0.8)) then
        r\<lparr>action := ''schedule_irrigation'', confidence := Num 0.5, priority := ''medium'',
          reasoning := reasoning r @ [Moderate_moisture_level (Math_round_number avg) target]\<rparr>
      else r)"

text \<open>
  The weather block (lines 46-62): skipped when \<open>weatherData\<close> is null; otherwise three
  independent tests in this order.
  \<^verbatim>\<open>weatherData.forecast && weatherData.forecast[0]?.rainfall > 5\<close> is false for an
  absent or empty forecast.
\<close>

definition rainExpected :: "weatherData \<Rightarrow> real option" where
  "rainExpected w =
     (case forecast w of
        None \<Rightarrow> None
      | Some [] \<Rightarrow> None
      | Some (rainfall # _) \<Rightarrow> if rainfall > 5 then Some rainfall else None)"

definition analyzeWeather :: "weatherData option \<Rightarrow> recommendation \<Rightarrow> recommendation" where
  "analyzeWeather weather r =
     (case weather of
        None \<Rightarrow> r
      | Some w \<Rightarrow>
          (let r1 = (if current_humidity w > 85
                     then r\<lparr>confidence := num_sub (confidence r) (Num 0.2),
                            reasoning := reasoning r @ [High_humidity]\<rparr>
                     else r);
               r2 = (case rainExpected w of
                       Some rainfall \<Rightarrow>
                         r1\<lparr>action := ''postpone'', confidence := Num 0.8,
                            reasoning := reasoning r1 @ [Rain_expected rainfall]\<rparr>
                     | None \<Rightarrow> r1);
               r3 = (if current_temperature w > 35
                     then r2\<lparr>timing := Some ''early_morning'',
                             reasoning := reasoning r2 @ [High_temperature]\<rparr>
                     else r2)
           in r3))"

text \<open>\<open>String.prototype.includes\<close>: the argument occurs as a contiguous substring.\<close>

fun startsWith :: "string \<Rightarrow> string \<Rightarrow> bool" where
  "startsWith _ [] = True"
| "startsWith [] (c # cs) = False"
| "startsWith (x # xs) (c # cs) = (x = c \<and> startsWith xs cs)"

fun str_includes :: "string \<Rightarrow> string \<Rightarrow> bool" where
  "str_includes [] sub = (sub = [])"
| "str_includes (x # xs) sub = (startsWith (x # xs) sub \<or> str_includes xs sub)"

text \<open>\<^verbatim>\<open>reading.zone || 1\<close>\<close>

definition zoneOf :: "reading \<Rightarrow> nat" where
  "zoneOf reading = (case zone reading of None \<Rightarrow> 1 | Some z \<Rightarrow> if z = 0 then 1 else z)"

text \<open>The irrigation parameters (lines 65-78).\<close>

definition irrigationParameters ::
  "reading list \<Rightarrow> number \<Rightarrow> real \<Rightarrow> recommendation \<Rightarrow> recommendation" where
  "irrigationParameters sensorData avg target r =
     (if str_includes (action r) ''irrigate'' then
        (let moistureDeficit = Math_max (Num 0) (num_sub (Num target) avg);
             d = Math_min (Num 60) (Math_max (Num 10) (num_mul moistureDeficit (Num 0.5)));
             zs = map zoneOf (filter (\<lambda>reading. moistureLevel reading < target * 0.7) sensorData)
         in r\<lparr>duration := Some d, waterAmount := Some (num_mul d (Num 5)),
              zones := (if length zs = 0 then [1] else zs)\<rparr>)
      else r)"

text \<open>
  \<^verbatim>\<open>const dataQuality = sensorData.filter(reading => reading.quality === 'good').length
                           / sensorData.length;
  recommendation.confidence *= dataQuality;\<close>
\<close>

definition dataQuality :: "reading list \<Rightarrow> number" where
  "dataQuality sensorData =
     num_div (Num (real (length (filter (\<lambda>reading. quality reading = good) sensorData))))
             (Num (real (length sensorData)))"

definition adjustConfidence :: "reading list \<Rightarrow> recommendation \<Rightarrow> recommendation" where
  "adjustConfidence sensorData r = r\<lparr>confidence := num_mul (confidence r) (dataQuality sensorData)\<rparr>"

text \<open>
  The recommendation after the moisture bands, the recommendation before the
  data-quality adjustment, and the function itself. With
  inputs of these types nothing in the body throws, so the result is always
  \<open>{success: true, data: recommendation}\<close>; the model returns the recommendation.
\<close>

definition baseRecommendation :: "reading list \<Rightarrow> farmSettings \<Rightarrow> recommendation" where
  "baseRecommendation sensorData fs =
     analyzeMoisture (avgMoisture sensorData) (targetMoistureOf fs) initial_recommendation"

definition adjustedRecommendation ::
  "reading list \<Rightarrow> weatherData option \<Rightarrow> farmSettings \<Rightarrow> recommendation" where
  "adjustedRecommendation sensorData weather fs =
     irrigationParameters sensorData (avgMoisture sensorData) (targetMoistureOf fs)
       (analyzeWeather weather (baseRecommendation sensorData fs))"

definition generateIrrigationRecommendation ::
  "reading list \<Rightarrow> weatherData option \<Rightarrow> farmSettings \<Rightarrow> recommendation" where
  "generateIrrigationRecommendation sensorData weather fs =
     adjustConfidence sensorData (adjustedRecommendation sensorData weather fs)"

text \<open>
  Vocabulary of the specification, used to state results: the arithmetic mean of the
  moisture levels, the aggregate the specification describes (poor readings left out
  when a non-poor reading exists), and a finite number within bounds.
\<close>

definition arithmeticMean :: "reading list \<Rightarrow> real" where
  "arithmeticMean sensorData = sum_list (map moistureLevel sensorData) / real (length sensorData)"

definition aggregate_spec :: "reading list \<Rightarrow> real" where
  "aggregate_spec sensorData =
     (let nonPoor = filter (\<lambda>reading. quality reading \<noteq> poor) sensorData
      in if nonPoor \<noteq> [] then arithmeticMean nonPoor else arithmeticMean sensorData)"

definition finite_between :: "real \<Rightarrow> real \<Rightarrow> number \<Rightarrow> bool" where
  "finite_between lo hi v = (case v of Num x \<Rightarrow> lo \<le> x \<and> x \<le> hi | _ \<Rightarrow> False)"

subsection \<open>The same function in double precision\<close>

text \<open>
  The definitions above compute with exact real numbers. That is enough for what does
  not depend on rounding: which readings enter the mean, that the confidence is a
  product, what the weather block does. Which band a mean falls into does depend on
  rounding (\<open>33 * 0.4\<close> is \<open>13.200000000000001\<close>), so the function is given again with
  every operation and every literal rounded as the language rounds it. The line numbers
  are those of the definitions above.
\<close>

definition avgMoisture_double :: "reading list \<Rightarrow> number" where
  "avgMoisture_double sensorData =
     js_div (foldl (\<lambda>sum reading. js_add sum (Num (moistureLevel reading))) (Num 0) sensorData)
            (Num (real (length sensorData)))"

definition analyzeMoisture_double :: "number \<Rightarrow> real \<Rightarrow> recommendation \<Rightarrow> recommendation" where
  "analyzeMoisture_double avg target r =
     (if num_lt avg (js_mul (Num target) (literal 0.4)) then
        r\<lparr>action := ''irrigate_now'', confidence := literal 0.9, priority := ''critical'',
          reasoning := reasoning r @ [Critical_moisture_level (Math_round_number avg) target]\<rparr>
      else if num_lt avg (js_mul (Num target) (literal 0.6)) then
        r\<lparr>action := ''irrigate_soon'', confidence := literal 0.7, priority := ''high'',
          reasoning := reasoning r @ [Low_moisture_level (Math_round_number avg) target]\<rparr>
      else if num_lt avg (js_mul (Num target) (literal 0.8)) then
        r\<lparr>action := ''schedule_irrigation'', confidence := literal 0.5, priority := ''medium'',
          reasoning := reasoning r @ [Moderate_moisture_level (Math_round_number avg) target]\<rparr>
      else r)"

definition analyzeWeather_double :: "weatherData option \<Rightarrow> recommendation \<Rightarrow> recommendation" where
  "analyzeWeather_double weather r =
     (case weather of
        None \<Rightarrow> r
      | Some w \<Rightarrow>
          (let r1 = (if current_humidity w > 85
                     then r\<lparr>confidence := js_sub (confidence r) (literal 0.2),
                            reasoning := reasoning r @ [High_humidity]\<rparr>
                     else r);
               r2 = (case rainExpected w of
                       Some rainfall \<Rightarrow>
                         r1\<lparr>action := ''postpone'', confidence := literal 0.8,
                            reasoning := reasoning r1 @ [Rain_expected rainfall]\<rparr>
                     | None \<Rightarrow> r1);
               r3 = (if current_temperature w > 35
                     then r2\<lparr>timing := Some ''early_morning'',
                             reasoning := reasoning r2 @ [High_temperature]\<rparr>
                     else r2)
           in r3))"

definition irrigationParameters_double ::
  "reading list \<Rightarrow> number \<Rightarrow> real \<Rightarrow> recommendation \<Rightarrow> recommendation" where
  "irrigationParameters_double sensorData avg target r =
     (if str_includes (action r) ''irrigate'' then
        (let moistureDeficit = Math_max (Num 0) (js_sub (Num target) avg);
             d = Math_min (Num 60) (Math_max (Num 10) (js_mul moistureDeficit (literal 0.5)));
             zs = map zoneOf
                    (filter (\<lambda>reading. num_lt (Num (moistureLevel reading))
                                               (js_mul (Num target) (literal 0.7)))
                            sensorData)
         in r\<lparr>duration := Some d, waterAmount := Some (js_mul d (Num 5)),
              zones := (if length zs = 0 then [1] else zs)\<rparr>)
      else r)"

definition dataQuality_double :: "reading list \<Rightarrow> number" where
  "dataQuality_double sensorData =
     js_div (Num (real (length (filter (\<lambda>reading. quality reading = good) sensorData))))
            (Num (real (length sensorData)))"

definition adjustConfidence_double :: "reading list \<Rightarrow> recommendation \<Rightarrow> recommendation" where
  "adjustConfidence_double sensorData r =
     r\<lparr>confidence := js_mul (confidence r) (dataQuality_double sensorData)\<rparr>"

definition baseRecommendation_double :: "reading list \<Rightarrow> farmSettings \<Rightarrow> recommendation" where
  "baseRecommendation_double sensorData fs =
     analyzeMoisture_double (avgMoisture_double sensorData) (targetMoistureOf fs)
       initial_recommendation"

definition generateIrrigationRecommendation_double ::
  "reading list \<Rightarrow> weatherData option \<Rightarrow> farmSettings \<Rightarrow> recommendation" where
  "generateIrrigationRecommendation_double sensorData weather fs =
     adjustConfidence_double sensorData
       (irrigationParameters_double sensorData (avgMoisture_double sensorData)
          (targetMoistureOf fs)
          (analyzeWeather_double weather (baseRecommendation_double sensorData fs)))"

text \<open>
  Conditions on the weather used to state results: no rain above 5 mm in the first
  forecast entry (or no weather data), and a humidity above 85%.
\<close>

definition noRainExpected :: "weatherData option \<Rightarrow> bool" where
  "noRainExpected weather = (case weather of None \<Rightarrow> True | Some w \<Rightarrow> rainExpected w = None)"

definition highHumidity :: "weatherData option \<Rightarrow> bool" where
  "highHumidity weather = (case weather of None \<Rightarrow> False | Some w \<Rightarrow> current_humidity w > 85)"


section \<open>SensorReading.js: the pre-save hooks\<close>

text \<open>
  The paths of a SensorReading document that the hooks read and write. Optional numbers
  are \<open>None\<close> when absent. Times are milliseconds since the epoch.
\<close>

datatype alertType = low_moisture | high_moisture | low_battery | sensor_error | calibration_needed

datatype severity = critical | warning | info

datatype alertMessage =
    Critical_moisture real
  | High_moisture real
  | Low_battery real
  | Invalid_moisture_reading
  | Calibration_overdue

record alert =
  alert_type :: alertType
  alert_severity :: severity
  message :: alertMessage
  acknowledged :: bool

record sensorReading =
  sensorId :: nat
  readings_moistureLevel :: real
  readings_temperature :: "real option"
  readings_humidity :: "real option"
  readings_batteryLevel :: real
  readings_signalStrength :: "real option"
  timestamp :: int
  reading_quality :: quality
  alerts :: "alert list"

text \<open>The paths of a Sensor document that the alert hook reads.\<close>

record sensor =
  moistureThreshold_enabled :: bool
  moistureThreshold_low :: real
  moistureThreshold_high :: real
  lowBattery_enabled :: bool
  lowBattery_threshold :: real
  calibration_lastCalibrated :: int

text \<open>Truthiness of an optional number: absent and 0 are falsy.\<close>

definition truthy :: "real option \<Rightarrow> bool" where
  "truthy v = (case v of None \<Rightarrow> False | Some x \<Rightarrow> x \<noteq> 0)"

text \<open>
  The first hook (lines 161-185).
  \<^verbatim>\<open>
  let qualityScore = 100;
  if (this.readings.signalStrength) {
    if (this.readings.signalStrength < -80) qualityScore -= 20;
    else if (this.readings.signalStrength < -70) qualityScore -= 10;
  }
  if (this.readings.batteryLevel < 20) qualityScore -= 15;
  else if (this.readings.batteryLevel < 40) qualityScore -= 5;
  if (!this.readings.temperature) qualityScore -= 5;
  if (!this.readings.humidity) qualityScore -= 5;
  \<close>
\<close>

definition qualityScore :: "sensorReading \<Rightarrow> int" where
  "qualityScore doc =
     (let s0 = 100;
          s1 = (case readings_signalStrength doc of
                  None \<Rightarrow> s0
                | Some signal \<Rightarrow>
                    if signal = 0 then s0
                    else if signal < - 80 then s0 - 20
                    else if signal < - 70 then s0 - 10
                    else s0);
          s2 = (if readings_batteryLevel doc < 20 then s1 - 15
                else if readings_batteryLevel doc < 40 then s1 - 5
                else s1);
          s3 = (if \<not> truthy (readings_temperature doc) then s2 - 5 else s2);
          s4 = (if \<not> truthy (readings_humidity doc) then s3 - 5 else s3)
      in s4)"

definition qualityBand :: "int \<Rightarrow> quality" where
  "qualityBand score =
     (if score \<ge> 90 then excellent
      else if score \<ge> 75 then good
      else if score \<ge> 60 then fair
      else poor)"

definition determineQuality :: "sensorReading \<Rightarrow> sensorReading" where
  "determineQuality doc = doc\<lparr>reading_quality := qualityBand (qualityScore doc)\<rparr>"

text \<open>
  The quality score as the specification words it: the last two deductions are for a
  temperature or humidity value that is missing.
\<close>

definition qualityScore_spec :: "sensorReading \<Rightarrow> int" where
  "qualityScore_spec doc =
     100
     - (case readings_signalStrength doc of
          None \<Rightarrow> 0
        | Some s \<Rightarrow> if s < - 80 then 20 else if s < - 70 then 10 else 0)
     - (if readings_batteryLevel doc < 20 then 15
        else if readings_batteryLevel doc < 40 then 5 else 0)
     - (if readings_temperature doc = None then 5 else 0)
     - (if readings_humidity doc = None then 5 else 0)"

text \<open>
  The second hook (lines 187-248). \<open>Sensor.findById\<close> is the lookup \<open>sensors\<close>,
  \<open>Date.now()\<close> the argument \<open>now\<close>. When the sensor is not found the hook returns at
  once and the document keeps the alerts it has. Otherwise the list is emptied and
  refilled by four independent tests, in this order. Each pushed alert gets the schema
  default \<open>acknowledged = false\<close>.
\<close>

definition moistureAlerts :: "sensor \<Rightarrow> sensorReading \<Rightarrow> alert list" where
  "moistureAlerts s doc =
     (if moistureThreshold_enabled s then
        (if readings_moistureLevel doc \<le> moistureThreshold_low s then
           [\<lparr>alert_type = low_moisture, alert_severity = critical,
             message = Critical_moisture (readings_moistureLevel doc), acknowledged = False\<rparr>]
         else if readings_moistureLevel doc \<ge> moistureThreshold_high s then
           [\<lparr>alert_type = high_moisture, alert_severity = warning,
             message = High_moisture (readings_moistureLevel doc), acknowledged = False\<rparr>]
         else [])
      else [])"

definition batteryAlerts :: "sensor \<Rightarrow> sensorReading \<Rightarrow> alert list" where
  "batteryAlerts s doc =
     (if lowBattery_enabled s then
        (if readings_batteryLevel doc \<le> lowBattery_threshold s then
           [\<lparr>alert_type = low_battery,
             alert_severity = (if readings_batteryLevel doc \<le> 10 then critical else warning),
             message = Low_battery (readings_batteryLevel doc), acknowledged = False\<rparr>]
         else [])
      else [])"

definition sensorErrorAlerts :: "sensorReading \<Rightarrow> alert list" where
  "sensorErrorAlerts doc =
     (if readings_moistureLevel doc < 0 \<or> readings_moistureLevel doc > 100 then
        [\<lparr>alert_type = sensor_error, alert_severity = critical,
          message = Invalid_moisture_reading, acknowledged = False\<rparr>]
      else [])"

definition daysSinceCalibration :: "int \<Rightarrow> sensor \<Rightarrow> real" where
  "daysSinceCalibration now s =
     real_of_int (now - calibration_lastCalibrated s) / (1000 * 60 * 60 * 24)"

definition calibrationAlerts :: "int \<Rightarrow> sensor \<Rightarrow> alert list" where
  "calibrationAlerts now s =
     (if daysSinceCalibration now s > 180 then
        [\<lparr>alert_type = calibration_needed, alert_severity = info,
          message = Calibration_overdue, acknowledged = False\<rparr>]
      else [])"

definition generateAlerts :: "(nat \<Rightarrow> sensor option) \<Rightarrow> int \<Rightarrow> sensorReading \<Rightarrow> sensorReading" where
  "generateAlerts sensors now doc =
     (case sensors (sensorId doc) of
        None \<Rightarrow> doc
      | Some s \<Rightarrow>
          doc\<lparr>alerts := [] @ moistureAlerts s doc @ batteryAlerts s doc
                          @ sensorErrorAlerts doc @ calibrationAlerts now s\<rparr>)"

text \<open>
  Saving a reading. The schema bounds of the modelled paths are checked first (Mongoose
  validates before the pre-save hooks run); a document that fails is rejected and
  nothing is stored. Otherwise the two hooks run in the order of their registration and
  the document is appended to the collection.
\<close>

definition inRange :: "real \<Rightarrow> real \<Rightarrow> real option \<Rightarrow> bool" where
  "inRange lo hi v = (case v of None \<Rightarrow> True | Some x \<Rightarrow> lo \<le> x \<and> x \<le> hi)"

definition validReading :: "sensorReading \<Rightarrow> bool" where
  "validReading doc \<longleftrightarrow>
     0 \<le> readings_moistureLevel doc \<and> readings_moistureLevel doc \<le> 100
     \<and> inRange (- 50) 80 (readings_temperature doc)
     \<and> inRange 0 100 (readings_humidity doc)
     \<and> 0 \<le> readings_batteryLevel doc \<and> readings_batteryLevel doc \<le> 100
     \<and> inRange (- 120) 0 (readings_signalStrength doc)"

datatype error =
    AppError string nat string
  | ValidationError
  | TypeError
  | Error string

definition saveReading ::
  "(nat \<Rightarrow> sensor option) \<Rightarrow> int \<Rightarrow> sensorReading list \<Rightarrow> sensorReading
     \<Rightarrow> error + sensorReading list" where
  "saveReading sensors now collection doc =
     (if validReading doc
      then Inr (collection @ [generateAlerts sensors now (determineQuality doc)])
      else Inl ValidationError)"

text \<open>Saving readings one after the other; the first rejected save ends the run.\<close>

fun saveReadings ::
  "(nat \<Rightarrow> sensor option) \<Rightarrow> sensorReading list \<Rightarrow> (int \<times> sensorReading) list
     \<Rightarrow> error + sensorReading list" where
  "saveReadings sensors collection [] = Inr collection"
| "saveReadings sensors collection ((now, doc) # rest) =
     (case saveReading sensors now collection doc of
        Inl err \<Rightarrow> Inl err
      | Inr collection' \<Rightarrow> saveReadings sensors collection' rest)"

text \<open>
  The alerts of the specification's alert store that the program has: the
  unacknowledged alerts carried by the stored readings of one sensor, each with the
  time of its reading.
\<close>

definition pendingAlerts :: "sensorReading list \<Rightarrow> nat \<Rightarrow> (alert \<times> int) list" where
  "pendingAlerts collection sid =
     concat (map (\<lambda>doc. map (\<lambda>a. (a, timestamp doc)) (filter (\<lambda>a. \<not> acknowledged a) (alerts doc)))
                 (filter (\<lambda>doc. sensorId doc = sid) collection))"


section \<open>IrrigationEvent.js: schema, pre-save hooks and instance methods\<close>

text \<open>
  The paths of an IrrigationEvent document that the schema requires or that the hooks,
  the instance methods and the request handlers read or write, with the bounds the
  schema declares for them. Numbers that the code computes are of type \<open>number\<close>;
  times are milliseconds since the epoch; an unset path is \<open>None\<close>. The paths left out
  (\<open>monitoring\<close>, \<open>alerts\<close>, the other settings and results) are optional and untouched.
\<close>

datatype irrigationStatus = pending | running | completed | failed | cancelled

record moistureIncrease =
  mi_zone :: int
  beforeMoisture :: real
  afterMoisture :: real
  increase :: real

record irrigationEvent =
  event_id :: nat
  farmId :: nat
  event_userId :: "nat option"
  eventType :: "string option"
  eventZones :: "int list"
  eventDuration :: real
  waterAmount_planned :: "number option"
  schedule_startTime :: "int option"
  schedule_endTime :: "int option"
  schedule_actualStartTime :: "int option"
  schedule_actualEndTime :: "int option"
  status :: irrigationStatus
  trigger_reason :: "string option"
  settings_flowRate :: real
  results_waterUsed :: number
  results_efficiency :: "number option"
  results_moistureIncrease :: "moistureIncrease list"
  event_notes :: "string option"
  cost_water :: real
  cost_electricity :: real
  cost_fertilizer :: real
  cost_total :: number

text \<open>
  The paths of a Farm document that the code reads. The schema of Farm.js declares the
  owner under the path \<open>owner\<close>; it has no path \<open>ownerId\<close>.
\<close>

record farm =
  farm_id :: nat
  owner :: nat
  farm_name :: string
  location_zones :: "int list"

text \<open>
  Schema validation of the modelled paths: \<open>required\<close>, \<open>enum\<close>, \<open>min\<close>, \<open>max\<close> and
  \<open>maxlength\<close> as declared. A number path holding \<open>NaN\<close> fails the cast to Number.
  All modelled paths are checked on every save; Mongoose leaves out the unmodified
  paths of a loaded document, which makes no difference for a stored document that
  satisfies the schema.
\<close>

definition validEfficiency :: "number option \<Rightarrow> bool" where
  "validEfficiency e =
     (case e of None \<Rightarrow> True | Some v \<Rightarrow> num_le (Num 0) v \<and> num_le v (Num 100))"

definition validType :: "string option \<Rightarrow> bool" where
  "validType t =
     (case t of
        None \<Rightarrow> False
      | Some s \<Rightarrow> s = ''manual'' \<or> s = ''scheduled'' \<or> s = ''automatic'')"

definition validTriggerReason :: "string option \<Rightarrow> bool" where
  "validTriggerReason t =
     (case t of
        None \<Rightarrow> False
      | Some s \<Rightarrow> s = ''manual'' \<or> s = ''scheduled'' \<or> s = ''low_moisture''
                \<or> s = ''ai_recommendation'' \<or> s = ''weather_forecast'' \<or> s = ''crop_stage''
                \<or> s = ''emergency'')"

definition validEvent :: "irrigationEvent \<Rightarrow> bool" where
  "validEvent e \<longleftrightarrow>
     event_userId e \<noteq> None
     \<and> validType (eventType e)
     \<and> list_all (\<lambda>z. 1 \<le> z) (eventZones e)
     \<and> 1 \<le> eventDuration e \<and> eventDuration e \<le> 480
     \<and> (case waterAmount_planned e of None \<Rightarrow> False | Some p \<Rightarrow> num_le (Num 0) p)
     \<and> schedule_startTime e \<noteq> None
     \<and> validTriggerReason (trigger_reason e)
     \<and> 0 \<le> settings_flowRate e
     \<and> num_le (Num 0) (results_waterUsed e)
     \<and> validEfficiency (results_efficiency e)
     \<and> (case event_notes e of None \<Rightarrow> True | Some n \<Rightarrow> length n \<le> 1000)
     \<and> 0 \<le> cost_water e \<and> 0 \<le> cost_electricity e \<and> 0 \<le> cost_fertilizer e
     \<and> num_le (Num 0) (cost_total e)"

text \<open>
  The first pre-save hook (lines 274-291).
  \<^verbatim>\<open>
  if (this.schedule.startTime && this.duration && !this.schedule.endTime) {
    this.schedule.endTime = new Date(
      this.schedule.startTime.getTime() + (this.duration * 60 * 1000));
  }
  if (!this.waterAmount.planned && this.duration && this.settings.flowRate) {
    this.waterAmount.planned = this.duration * this.settings.flowRate * this.zones.length;
  }
  this.cost.total = (this.cost.water || 0) + (this.cost.electricity || 0)
                    + (this.cost.fertilizer || 0);
  \<close>
  \<open>new Date(t)\<close> drops the fraction of \<open>t\<close> towards zero; for a \<open>t\<close> that is not
  finite the date is invalid and the path is left unset here.
\<close>

definition truncate :: "real \<Rightarrow> int" where
  "truncate x = (if 0 \<le> x then \<lfloor>x\<rfloor> else \<lceil>x\<rceil>)"

definition newDate :: "number \<Rightarrow> int option" where
  "newDate t = (case t of Num x \<Rightarrow> Some (truncate x) | _ \<Rightarrow> None)"

definition truthyPlanned :: "number option \<Rightarrow> bool" where
  "truthyPlanned p = (case p of None \<Rightarrow> False | Some v \<Rightarrow> truthyNumber v)"

definition preSaveCalculate :: "irrigationEvent \<Rightarrow> irrigationEvent" where
  "preSaveCalculate e =
     (let e1 = (case schedule_startTime e of
                  Some startTime \<Rightarrow>
                    if eventDuration e \<noteq> 0 \<and> schedule_endTime e = None
                    then e\<lparr>schedule_endTime :=
                             newDate (js_add (Num (of_int startTime))
                                        (js_mul (js_mul (Num (eventDuration e)) (Num 60))
                                                (Num 1000)))\<rparr>
                    else e
                | None \<Rightarrow> e);
          e2 = (if \<not> truthyPlanned (waterAmount_planned e1) \<and> eventDuration e1 \<noteq> 0
                   \<and> settings_flowRate e1 \<noteq> 0
                then e1\<lparr>waterAmount_planned :=
                          Some (js_mul (js_mul (Num (eventDuration e1))
                                               (Num (settings_flowRate e1)))
                                       (Num (real (length (eventZones e1)))))\<rparr>
                else e1)
      in e2\<lparr>cost_total := js_add (js_add (Num (cost_water e2)) (Num (cost_electricity e2)))
                                (Num (cost_fertilizer e2))\<rparr>)"

text \<open>The second pre-save hook (lines 294-315): the zones must be zones of the farm.\<close>

definition preSaveValidateZones :: "(nat \<Rightarrow> farm option) \<Rightarrow> irrigationEvent \<Rightarrow> error + irrigationEvent" where
  "preSaveValidateZones farms e =
     (case farms (farmId e) of
        None \<Rightarrow> Inl (Error ''Farm not found'')
      | Some fm \<Rightarrow>
          (let farmZoneIds = location_zones fm;
               invalidZones = filter (\<lambda>zoneId. zoneId \<notin> set farmZoneIds) (eventZones e)
           in if length invalidZones > 0 then Inl (Error ''Invalid zones'') else Inr e))"

text \<open>
  \<open>this.save()\<close>: validation, then the two hooks in the order of their registration,
  then the write. The collection is the list of the stored documents; a document whose
  \<open>_id\<close> is stored replaces the stored one, any other is inserted. A rejected save
  leaves the collection as it is: the result is then the error alone.
  \<open>Farm.findById\<close> is the lookup \<open>farms\<close>.
\<close>

type_synonym eventStore = "irrigationEvent list"

definition saveDocument :: "(nat \<Rightarrow> farm option) \<Rightarrow> irrigationEvent \<Rightarrow> error + irrigationEvent" where
  "saveDocument farms e =
     (if \<not> validEvent e then Inl ValidationError
      else preSaveValidateZones farms (preSaveCalculate e))"

definition upsert :: "irrigationEvent \<Rightarrow> eventStore \<Rightarrow> eventStore" where
  "upsert e store =
     (if list_ex (\<lambda>d. event_id d = event_id e) store
      then map (\<lambda>d. if event_id d = event_id e then e else d) store
      else store @ [e])"

definition save :: "(nat \<Rightarrow> farm option) \<Rightarrow> eventStore \<Rightarrow> irrigationEvent \<Rightarrow> error + eventStore" where
  "save farms store e =
     (case saveDocument farms e of
        Inl err \<Rightarrow> Inl err
      | Inr e' \<Rightarrow> Inr (upsert e' store))"





definition cancelAssign :: "string \<Rightarrow> irrigationEvent \<Rightarrow> irrigationEvent" where
  "cancelAssign reason e =
     e\<lparr>status := cancelled,
       event_notes := (case event_notes e of
                   None \<Rightarrow> Some (''Cancelled: '' @ reason)
                 | Some n \<Rightarrow> if n = [] then Some (''Cancelled: '' @ reason)
                             else Some (n @ [CHR 0x0A] @ ''Cancelled: '' @ reason))\<rparr>"



definition cancel :: "(nat \<Rightarrow> farm option) \<Rightarrow> eventStore \<Rightarrow> irrigationEvent \<Rightarrow> string \<Rightarrow> error + eventStore" where
  "cancel farms store e reason = save farms store (cancelAssign reason e)"



section \<open>The irrigation request handlers\<close>
















section \<open>Sample data\<close>

text \<open>
  A farm with zones 1 and 2; a valid running event of that farm with a planned amount
  of 200 litres; two valid pending events of the same farm; an admin, the farm's owner
  and a request body.
\<close>

definition sampleFarm :: farm where
  "sampleFarm = \<lparr>farm_id = 3, owner = 9, farm_name = ''F'', location_zones = [1, 2]\<rparr>"

definition sampleFarms :: "nat \<Rightarrow> farm option" where
  "sampleFarms = (\<lambda>i. if i = 3 then Some sampleFarm else None)"

definition sampleRun :: irrigationEvent where
  "sampleRun = \<lparr>event_id = 7, farmId = 3, event_userId = Some 9, eventType = Some ''manual'',
       eventZones = [1, 2], eventDuration = 10,
       waterAmount_planned = Some (Num 200), schedule_startTime = Some 1000,
       schedule_endTime = Some 601000, schedule_actualStartTime = Some 1000,
       schedule_actualEndTime = None, status = running, trigger_reason = Some ''manual'',
       settings_flowRate = 5,
       results_waterUsed = Num 0, results_efficiency = None, results_moistureIncrease = [],
       event_notes = None, cost_water = 0, cost_electricity = 0, cost_fertilizer = 0,
       cost_total = Num 0\<rparr>"





section \<open>Double precision: results\<close>

lemma pow2_powr: "pow2 k = 2 powr (real_of_int k)"
  by (simp add: pow2_def powr_int)

lemma pow2_pos: "0 < pow2 k"
  by (simp add: pow2_powr)

lemma pow2_add: "pow2 (a + b) = pow2 a * pow2 b"
  by (simp add: pow2_powr powr_add)

lemma pow2_less_iff: "pow2 a < pow2 b \<longleftrightarrow> a < b"
  by (simp add: pow2_powr)

lemma pow2_le_iff: "pow2 a \<le> pow2 b \<longleftrightarrow> a \<le> b"
  by (simp add: pow2_powr)

lemma pow2_nat: "0 \<le> k \<Longrightarrow> pow2 k = of_int (2 ^ nat k)"
  by (simp add: pow2_def)

lemma pow2_0: "pow2 0 = 1"
  by (simp add: pow2_def)

lemma binade_raw_bounds:
  assumes "x \<noteq> 0"
  defines "e \<equiv> (if 1 \<le> \<bar>x\<bar> then bitlen \<lfloor>\<bar>x\<bar>\<rfloor> - 1 else - bitlen (\<lceil>1 / \<bar>x\<bar>\<rceil> - 1))"
  shows "pow2 e \<le> \<bar>x\<bar> \<and> \<bar>x\<bar> < pow2 (e + 1)"
proof (cases "1 \<le> \<bar>x\<bar>")
  case True
  let ?n = "\<lfloor>\<bar>x\<bar>\<rfloor>"
  have n: "0 < ?n" using True by simp
  from bitlen_bounds [OF n] have b: "2 ^ nat (bitlen ?n - 1) \<le> ?n" "?n < 2 ^ nat (bitlen ?n)"
    by simp_all
  have bl: "1 \<le> bitlen ?n" using n by (auto simp: bitlen_alt_def)
  have e: "e = bitlen ?n - 1" using True by (simp add: e_def)
  have "pow2 e = of_int (2 ^ nat (bitlen ?n - 1))" using bl by (simp add: e pow2_nat)
  also have "\<dots> \<le> of_int ?n" using b(1) by (simp only: of_int_le_iff)
  also have "\<dots> \<le> \<bar>x\<bar>" by simp
  finally have lo: "pow2 e \<le> \<bar>x\<bar>" .
  have "?n + 1 \<le> 2 ^ nat (bitlen ?n)" using b(2) by simp
  then have le: "real_of_int (?n + 1) \<le> of_int (2 ^ nat (bitlen ?n))" by (simp only: of_int_le_iff)
  have "\<bar>x\<bar> < real_of_int (?n + 1)" by linarith
  also note le
  also have "of_int (2 ^ nat (bitlen ?n)) = pow2 (e + 1)" using bl by (simp add: e pow2_nat)
  finally have hi: "\<bar>x\<bar> < pow2 (e + 1)" .
  from lo hi show ?thesis by simp
next
  case False
  let ?a = "\<bar>x\<bar>"
  let ?m = "\<lceil>1 / ?a\<rceil> - 1"
  have a: "0 < ?a" "?a < 1" using assms(1) False by simp_all
  then have y: "1 < 1 / ?a" by simp
  then have "2 \<le> \<lceil>1 / ?a\<rceil>" by linarith
  then have m: "0 < ?m" by simp
  from bitlen_bounds [OF m] have b: "2 ^ nat (bitlen ?m - 1) \<le> ?m" "?m < 2 ^ nat (bitlen ?m)"
    by simp_all
  have bl: "1 \<le> bitlen ?m" using m by (auto simp: bitlen_alt_def)
  have e: "e = - bitlen ?m" using False by (simp add: e_def)
  have "1 / ?a \<le> real_of_int (?m + 1)" by simp
  also have "\<dots> \<le> of_int (2 ^ nat (bitlen ?m))" using b(2) by (simp only: of_int_le_iff)
  finally have "1 / ?a \<le> 2 ^ nat (bitlen ?m)" by simp
  then have "1 / 2 ^ nat (bitlen ?m) \<le> ?a" using a(1)
    by (simp add: field_simps)
  moreover have "pow2 e = 1 / 2 ^ nat (bitlen ?m)" using bl by (simp add: e pow2_def)
  ultimately have lo: "pow2 e \<le> ?a" by simp
  have "real_of_int (2 ^ nat (bitlen ?m - 1)) \<le> of_int ?m" using b(1) by (simp only: of_int_le_iff)
  also have "of_int ?m < 1 / ?a" by linarith
  finally have "2 ^ nat (bitlen ?m - 1) < 1 / ?a" by simp
  then have "?a < 1 / 2 ^ nat (bitlen ?m - 1)" using a(1) by (simp add: field_simps)
  moreover have "pow2 (e + 1) = 1 / 2 ^ nat (bitlen ?m - 1)"
  proof (cases "bitlen ?m = 1")
    case True then show ?thesis by (simp add: e pow2_def)
  next
    case F: False
    then have "e + 1 < 0" using bl by (simp add: e)
    moreover have "nat (- (e + 1)) = nat (bitlen ?m - 1)" by (simp add: e)
    ultimately show ?thesis by (simp add: pow2_def)
  qed
  ultimately have hi: "?a < pow2 (e + 1)" by simp
  from lo hi show ?thesis by simp
qed

lemma binade_bounds:
  assumes "pow2 (- 1022) \<le> \<bar>x\<bar>"
  shows "pow2 (binade x) \<le> \<bar>x\<bar> \<and> \<bar>x\<bar> < pow2 (binade x + 1)"
proof -
  have x: "x \<noteq> 0" using assms pow2_pos [of "- 1022"] by auto
  define e where "e = (if 1 \<le> \<bar>x\<bar> then bitlen \<lfloor>\<bar>x\<bar>\<rfloor> - 1 else - bitlen (\<lceil>1 / \<bar>x\<bar>\<rceil> - 1))"
  from binade_raw_bounds [OF x] have b: "pow2 e \<le> \<bar>x\<bar>" "\<bar>x\<bar> < pow2 (e + 1)"
    by (simp_all add: e_def)
  from b(2) assms have "pow2 (- 1022) < pow2 (e + 1)" by simp
  then have "- 1022 \<le> e" by (simp add: pow2_less_iff)
  then have "binade x = e" using x by (simp add: binade_def e_def)
  with b show ?thesis by simp
qed

lemma binade_subnormal:
  assumes "\<bar>x\<bar> < pow2 (- 1022)"
  shows "binade x = - 1022"
proof (cases "x = 0")
  case True then show ?thesis by (simp add: binade_def)
next
  case False
  define e where "e = (if 1 \<le> \<bar>x\<bar> then bitlen \<lfloor>\<bar>x\<bar>\<rfloor> - 1 else - bitlen (\<lceil>1 / \<bar>x\<bar>\<rceil> - 1))"
  from binade_raw_bounds [OF False] have b: "pow2 e \<le> \<bar>x\<bar>" by (simp add: e_def)
  with assms have "pow2 e < pow2 (- 1022)" by simp
  then have "e < - 1022" by (simp add: pow2_less_iff)
  then show ?thesis using False by (simp add: binade_def e_def)
qed

lemma binade_ge: "- 1022 \<le> binade x"
  by (simp add: binade_def)

lemma binade_log:
  assumes "x \<noteq> 0"
  shows "binade x = max \<lfloor>log 2 \<bar>x\<bar>\<rfloor> (- 1022)"
proof (cases "pow2 (- 1022) \<le> \<bar>x\<bar>")
  case True
  from binade_bounds [OF True]
  have "2 powr real_of_int (binade x) \<le> \<bar>x\<bar> \<and> \<bar>x\<bar> < 2 powr (real_of_int (binade x) + 1)"
    by (simp add: pow2_powr)
  then have "\<lfloor>log 2 \<bar>x\<bar>\<rfloor> = binade x"
    using assms by (subst floor_log_eq_powr_iff) auto
  then show ?thesis using binade_ge [of x] by simp
next
  case False
  then have s: "\<bar>x\<bar> < pow2 (- 1022)" by simp
  then have "\<bar>x\<bar> < 2 powr (real_of_int (- 1022))" by (simp only: pow2_powr)
  then have "log 2 \<bar>x\<bar> < real_of_int (- 1022)" using assms by (simp add: log_less_iff)
  then have "\<lfloor>log 2 \<bar>x\<bar>\<rfloor> < - 1022" by linarith
  then show ?thesis using binade_subnormal [OF s] by simp
qed


lemma roundEven_of_int: "roundEven (of_int k) = k"
  by (simp add: roundEven_def)

lemma roundEven_near: "\<bar>of_int (roundEven t) - t\<bar> \<le> 1 / 2"
proof -
  have "of_int \<lfloor>t\<rfloor> \<le> t" "t < of_int \<lfloor>t\<rfloor> + 1" by linarith+
  then show ?thesis by (auto simp: roundEven_def Let_def)
qed

lemma roundEven_ge: "of_int k \<le> t \<Longrightarrow> k \<le> roundEven t"
proof -
  assume "of_int k \<le> t"
  then have "k \<le> \<lfloor>t\<rfloor>" by (simp add: le_floor_iff)
  then show ?thesis by (auto simp: roundEven_def Let_def)
qed

lemma toDouble_not_NaN: "toDouble x \<noteq> NaN"
  by (simp add: toDouble_def Let_def)

lemma toDouble_0: "toDouble 0 = Num 0"
  using pow2_pos [of 1024] by (simp add: toDouble_def Let_def roundEven_def)

lemma ulp_le:
  assumes "pow2 (- 1074) \<le> \<bar>z\<bar>"
  shows "pow2 (binade z - 52) \<le> \<bar>z\<bar>"
proof (cases "pow2 (- 1022) \<le> \<bar>z\<bar>")
  case True
  have "pow2 (binade z - 52) \<le> pow2 (binade z)" by (simp add: pow2_le_iff)
  also have "\<dots> \<le> \<bar>z\<bar>" using binade_bounds [OF True] by simp
  finally show ?thesis .
next
  case False
  then have "binade z = - 1022" by (simp add: binade_subnormal)
  then show ?thesis using assms by simp
qed

lemma toDouble_positive:
  assumes "pow2 (- 1074) \<le> z"
  shows "toDouble z = PInf \<or> (\<exists>r. toDouble z = Num r \<and> 0 < r)"
proof -
  let ?u = "pow2 (binade z - 52)"
  have z: "0 < z" using assms pow2_pos [of "- 1074"] by linarith
  have u: "0 < ?u" by (rule pow2_pos)
  have "?u \<le> z" using ulp_le [of z] assms z by simp
  then have "of_int 1 \<le> z / ?u" using u by (simp add: field_simps)
  then have "1 \<le> roundEven (z / ?u)" by (rule roundEven_ge)
  then have "(1::real) \<le> of_int (roundEven (z / ?u))" by linarith
  then have "0 < of_int (roundEven (z / ?u)) * ?u" using u by simp
  then show ?thesis using pow2_pos [of 1024] by (auto simp: toDouble_def Let_def)
qed

lemma toDouble_finite:
  assumes "\<bar>z\<bar> < pow2 1023"
  shows "\<exists>r. toDouble z = Num r"
proof -
  let ?u = "pow2 (binade z - 52)"
  let ?r = "of_int (roundEven (z / ?u)) * ?u"
  have u: "0 < ?u" by (rule pow2_pos)
  have e: "binade z \<le> 1022"
  proof (cases "pow2 (- 1022) \<le> \<bar>z\<bar>")
    case True
    from binade_bounds [OF True] assms have "pow2 (binade z) < pow2 1023" by simp
    then show ?thesis by (simp add: pow2_less_iff)
  next
    case False
    then show ?thesis by (simp add: binade_subnormal)
  qed
  then have "?u \<le> pow2 1023" by (simp add: pow2_le_iff)
  have "\<bar>of_int (roundEven (z / ?u)) - z / ?u\<bar> \<le> 1 / 2" by (rule roundEven_near)
  then have "\<bar>of_int (roundEven (z / ?u)) - z / ?u\<bar> * ?u \<le> 1 / 2 * ?u"
    using u by (intro mult_right_mono) auto
  moreover have "?r - z = (of_int (roundEven (z / ?u)) - z / ?u) * ?u"
    using u by (simp add: left_diff_distrib)
  then have "\<bar>?r - z\<bar> = \<bar>of_int (roundEven (z / ?u)) - z / ?u\<bar> * ?u"
    using u by (simp only: abs_mult abs_of_pos)
  ultimately have "\<bar>?r - z\<bar> \<le> ?u / 2" by simp
  then have "\<bar>?r\<bar> \<le> \<bar>z\<bar> + ?u / 2" by linarith
  also have "\<dots> < pow2 1023 + pow2 1023" using assms \<open>?u \<le> pow2 1023\<close> u by linarith
  also have "\<dots> = pow2 1024" using pow2_add [of 1 1023] by (simp add: pow2_def)
  finally have "\<bar>?r\<bar> < pow2 1024" .
  then show ?thesis by (auto simp: toDouble_def Let_def)
qed

lemma isDouble_lattice:
  assumes "isDouble x"
  shows "\<exists>k::int. x = of_int k * pow2 (- 1074)"
proof -
  let ?e = "binade x - 52"
  from assms have "x = of_int (roundEven (x / pow2 ?e)) * pow2 ?e"
    by (auto simp: isDouble_def toDouble_def Let_def split: if_splits)
  moreover have "pow2 ?e = pow2 (?e + 1074) * pow2 (- 1074)"
    using pow2_add [of "?e + 1074" "- 1074"] by simp
  moreover have "pow2 (?e + 1074) = of_int (2 ^ nat (?e + 1074))"
    using binade_ge [of x] by (intro pow2_nat) simp
  ultimately have "x = of_int (roundEven (x / pow2 ?e) * 2 ^ nat (?e + 1074)) * pow2 (- 1074)"
    by simp
  then show ?thesis by blast
qed

lemma isDouble_diff:
  assumes "isDouble x" "isDouble y" "y < x"
  shows "pow2 (- 1074) \<le> x - y"
proof -
  from isDouble_lattice [OF assms(1)] obtain k :: int where k: "x = of_int k * pow2 (- 1074)" ..
  from isDouble_lattice [OF assms(2)] obtain l :: int where l: "y = of_int l * pow2 (- 1074)" ..
  have p: "0 < pow2 (- 1074)" by (rule pow2_pos)
  from assms(3) have "of_int l * pow2 (- 1074) < of_int k * pow2 (- 1074)" by (simp only: k l)
  then have "real_of_int l < of_int k" using p by (simp only: mult_less_cancel_right_pos)
  then have "l + 1 \<le> k" by linarith
  then have "real_of_int (k - l) \<ge> 1" by linarith
  then have "1 * pow2 (- 1074) \<le> of_int (k - l) * pow2 (- 1074)"
    using p by (intro mult_right_mono) auto
  then show ?thesis by (simp add: k l left_diff_distrib)
qed

lemmas dbl = toDouble_def binade_def roundEven_def pow2_def Let_def compute_bitlen

section \<open>Calibration: results\<close>

lemma toDouble_nonneg:
  assumes "0 \<le> z"
  shows "toDouble z = PInf \<or> (\<exists>r. toDouble z = Num r \<and> 0 \<le> r)"
proof -
  let ?u = "pow2 (binade z - 52)"
  have u: "0 < ?u" by (rule pow2_pos)
  then have "0 \<le> z / ?u" using assms by simp
  then have "(0::int) \<le> roundEven (z / ?u)" using roundEven_ge [of 0 "z / ?u"] by simp
  then have "0 \<le> of_int (roundEven (z / ?u)) * ?u" using u by simp
  moreover have "- pow2 1024 < 0" using pow2_pos [of 1024] by simp
  ultimately show ?thesis by (auto simp: toDouble_def Let_def)
qed

lemma js_sub_doubles_pos:
  assumes "isDouble x" "isDouble y" "y < x"
  shows "js_sub (Num x) (Num y) = PInf \<or> (\<exists>r. js_sub (Num x) (Num y) = Num r \<and> 0 < r)"
  using toDouble_positive [OF isDouble_diff [OF assms]] by (simp add: js_sub_def)

lemma js_sub_doubles_finite:
  assumes "isDouble x" "isDouble y" "y < x" "x - y < pow2 1023"
  shows "\<exists>r. js_sub (Num x) (Num y) = Num r \<and> 0 < r"
proof -
  from assms(3,4) have "\<bar>x - y\<bar> < pow2 1023" by simp
  from toDouble_finite [OF this] obtain r where "toDouble (x - y) = Num r" by blast
  then show ?thesis using js_sub_doubles_pos [OF assms(1-3)] by (auto simp: js_sub_def)
qed

lemma js_div_pos_nonneg:
  assumes "0 < a" "b = PInf \<or> (\<exists>r. b = Num r \<and> 0 < r)"
  shows "js_div (Num a) b = PInf \<or> (\<exists>q. js_div (Num a) b = Num q \<and> 0 \<le> q)"
proof -
  from assms(2) show ?thesis
  proof
    assume "b = PInf"
    then show ?thesis by (simp add: js_div_def toDouble_0)
  next
    assume "\<exists>r. b = Num r \<and> 0 < r"
    then obtain r where r: "b = Num r" "0 < r" by blast
    then have "0 \<le> a / r" using assms(1) by simp
    from toDouble_nonneg [OF this] show ?thesis using r by (simp add: js_div_def)
  qed
qed

lemma js_mul_100_nonneg:
  assumes "q = PInf \<or> (\<exists>r. q = Num r \<and> 0 \<le> r)"
  shows "js_mul q (Num 100) = PInf \<or> (\<exists>p. js_mul q (Num 100) = Num p \<and> 0 \<le> p)"
proof -
  from assms show ?thesis
  proof
    assume "q = PInf"
    then show ?thesis by (simp add: js_mul_def)
  next
    assume "\<exists>r. q = Num r \<and> 0 \<le> r"
    then obtain r where r: "q = Num r" "0 \<le> r" by blast
    then have "0 \<le> r * 100" by simp
    from toDouble_nonneg [OF this] show ?thesis using r by (simp add: js_mul_def)
  qed
qed

lemma interpolation_nonneg:
  assumes "isDouble raw" "isDouble dryValue" "isDouble wetValue"
    and "wetValue < raw" "raw < dryValue" "dryValue - raw < pow2 1023"
  shows "interpolation (Num raw) (Num dryValue) (Num wetValue) = PInf
       \<or> (\<exists>p. interpolation (Num raw) (Num dryValue) (Num wetValue) = Num p \<and> 0 \<le> p)"
proof -
  from js_sub_doubles_finite [OF assms(2,1,5,6)]
  obtain a where a: "js_sub (Num dryValue) (Num raw) = Num a" "0 < a" by blast
  have "wetValue < dryValue" using assms(4,5) by simp
  from js_sub_doubles_pos [OF assms(2,3) this]
  have b: "js_sub (Num dryValue) (Num wetValue) = PInf
         \<or> (\<exists>r. js_sub (Num dryValue) (Num wetValue) = Num r \<and> 0 < r)" .
  from js_mul_100_nonneg [OF js_div_pos_nonneg [OF a(2) b]]
  show ?thesis by (simp add: interpolation_def a(1))
qed

lemma clamp_round_Num:
  "Math_round_number (Math_max (Num 0) (Math_min (Num 100) (Num p))) =
     Num (of_int \<lfloor>max 0 (min 100 p) + 1 / 2\<rfloor>)"
  by (simp add: Math_round_def max_def min_def)

lemma Math_round_100: "Math_round 100 = 100"
proof -
  have "\<lfloor>(100::real) + 1 / 2\<rfloor> = 100" by linarith
  then show ?thesis by (simp add: Math_round_def)
qed

lemma clamp_round_PInf:
  "Math_round_number (Math_max (Num 0) (Math_min (Num 100) PInf)) = Num 100"
proof -
  have "\<lfloor>(100::real) + 1 / 2\<rfloor> = 100" by linarith
  then show ?thesis by (simp add: Math_round_def)
qed

lemma clamp_round_range:
  "0 \<le> \<lfloor>max 0 (min 100 (p::real)) + 1 / 2\<rfloor> \<and> \<lfloor>max 0 (min 100 p) + 1 / 2\<rfloor> \<le> 100"
proof -
  let ?c = "max 0 (min 100 p)"
  have "0 \<le> ?c" "?c \<le> 100" by simp_all
  then show ?thesis by linarith
qed


lemma isDouble_examples:
  "isDouble 0" "isDouble 239" "isDouble 417" "isDouble 595" "isDouble 855" "isDouble 1000"
  by (simp_all add: isDouble_def toDouble_def binade_def roundEven_def pow2_def Let_def compute_bitlen)

lemma convert_examples:
  "convertMoistureToPercentage (Num 595) (Num 595) (Num 239) = Num 0"
  "convertMoistureToPercentage (Num 239) (Num 595) (Num 239) = Num 100"
  "convertMoistureToPercentage (Num 417) (Num 595) (Num 239) = Num 50"
  "convertMoistureToPercentage (Num 855) (Num 1000) (Num 0) = Num 14"
  by (simp_all add: convertMoistureToPercentage_def interpolation_def js_sub_def js_div_def
      js_mul_def toDouble_def binade_def roundEven_def pow2_def Let_def compute_bitlen
      Math_round_def)

text \<open>
  C3 (amended). For finite doubles raw, dryValue and wetValue with dryValue - raw
  below \<open>2^1023\<close>: the function returns 100 if raw \<le> wetValue; otherwise 0 if
  raw \<ge> dryValue; otherwise the interpolation
  \<open>((dryValue - raw) / (dryValue - wetValue)) * 100\<close>, each operation rounded to double
  precision, is a non-negative number or \<open>Infinity\<close>, and the result is that number
  clamped to [0,100] and then rounded to the nearest integer, a tie going up (100 for
  \<open>Infinity\<close>). The result is always an integer in [0,100]. The calibration examples
  (595,595,239), (239,595,239) and (417,595,239) give 0, 100 and 50; (855,1000,0) gives
  14, the interpolation being 14.499999999999998 in double precision.
\<close>

theorem convertMoistureToPercentage_double:
  assumes "isDouble raw" and "isDouble dryValue" and "isDouble wetValue"
    and "dryValue - raw < pow2 1023"
  shows "(raw \<le> wetValue \<longrightarrow>
            convertMoistureToPercentage (Num raw) (Num dryValue) (Num wetValue) = Num 100)
       \<and> (wetValue < raw \<and> dryValue \<le> raw \<longrightarrow>
            convertMoistureToPercentage (Num raw) (Num dryValue) (Num wetValue) = Num 0)
       \<and> (wetValue < raw \<and> raw < dryValue \<longrightarrow>
            (case js_mul (js_div (js_sub (Num dryValue) (Num raw))
                                 (js_sub (Num dryValue) (Num wetValue))) (Num 100) of
               Num p \<Rightarrow>
                 0 \<le> p
                 \<and> convertMoistureToPercentage (Num raw) (Num dryValue) (Num wetValue) =
                     Num (of_int \<lfloor>max 0 (min 100 p) + 1 / 2\<rfloor>)
             | PInf \<Rightarrow>
                 convertMoistureToPercentage (Num raw) (Num dryValue) (Num wetValue) = Num 100
             | _ \<Rightarrow> False))
       \<and> (\<exists>n. convertMoistureToPercentage (Num raw) (Num dryValue) (Num wetValue) = Num (of_int n)
              \<and> 0 \<le> n \<and> n \<le> 100)
       \<and> convertMoistureToPercentage (Num 595) (Num 595) (Num 239) = Num 0
       \<and> convertMoistureToPercentage (Num 239) (Num 595) (Num 239) = Num 100
       \<and> convertMoistureToPercentage (Num 417) (Num 595) (Num 239) = Num 50
       \<and> convertMoistureToPercentage (Num 855) (Num 1000) (Num 0) = Num 14"
proof -
  let ?R = "convertMoistureToPercentage (Num raw) (Num dryValue) (Num wetValue)"
  let ?I = "js_mul (js_div (js_sub (Num dryValue) (Num raw))
                           (js_sub (Num dryValue) (Num wetValue))) (Num 100)"
  have c1: "raw \<le> wetValue \<longrightarrow> ?R = Num 100"
    by (simp add: convertMoistureToPercentage_def)
  have c2: "wetValue < raw \<and> dryValue \<le> raw \<longrightarrow> ?R = Num 0"
    by (simp add: convertMoistureToPercentage_def)
  have mid: "?R = Math_round_number (Math_max (Num 0) (Math_min (Num 100) ?I))"
    if "wetValue < raw" "raw < dryValue"
    using that by (simp add: convertMoistureToPercentage_def interpolation_def)
  have c3: "wetValue < raw \<and> raw < dryValue \<longrightarrow>
            (case ?I of
               Num p \<Rightarrow> 0 \<le> p \<and> ?R = Num (of_int \<lfloor>max 0 (min 100 p) + 1 / 2\<rfloor>)
             | PInf \<Rightarrow> ?R = Num 100
             | _ \<Rightarrow> False)"
  proof (intro impI, elim conjE)
    assume h: "wetValue < raw" "raw < dryValue"
    from interpolation_nonneg [OF assms(1-3) h assms(4)]
    have "?I = PInf \<or> (\<exists>p. ?I = Num p \<and> 0 \<le> p)" by (simp add: interpolation_def)
    then show "case ?I of
               Num p \<Rightarrow> 0 \<le> p \<and> ?R = Num (of_int \<lfloor>max 0 (min 100 p) + 1 / 2\<rfloor>)
             | PInf \<Rightarrow> ?R = Num 100
             | _ \<Rightarrow> False"
    proof
      assume i: "?I = PInf"
      have "?R = Math_round_number (Math_max (Num 0) (Math_min (Num 100) PInf))"
        using mid [OF h] by (simp only: i)
      then have "?R = Num 100" by (simp only: clamp_round_PInf)
      then show ?thesis using i by simp
    next
      assume "\<exists>p. ?I = Num p \<and> 0 \<le> p"
      then obtain p where p: "?I = Num p" "0 \<le> p" by blast
      have "?R = Math_round_number (Math_max (Num 0) (Math_min (Num 100) (Num p)))"
        using mid [OF h] by (simp only: p(1))
      then have "?R = Num (of_int \<lfloor>max 0 (min 100 p) + 1 / 2\<rfloor>)"
        by (simp only: clamp_round_Num)
      then show ?thesis using p by simp
    qed
  qed
  have c4: "\<exists>n. ?R = Num (of_int n) \<and> 0 \<le> n \<and> n \<le> 100"
  proof -
    consider "raw \<le> wetValue" | "wetValue < raw" "dryValue \<le> raw" | "wetValue < raw" "raw < dryValue"
      by linarith
    then show ?thesis
    proof cases
      case 1
      then have "?R = Num (of_int 100)" using c1 by simp
      then show ?thesis by (intro exI [of _ 100]) simp
    next
      case 2
      then have "?R = Num (of_int 0)" using c2 by simp
      then show ?thesis by (intro exI [of _ 0]) simp
    next
      case 3
      show ?thesis
      proof (cases ?I)
        case (Num p)
        then have "?R = Num (of_int \<lfloor>max 0 (min 100 p) + 1 / 2\<rfloor>)" using c3 3 by simp
        then show ?thesis using clamp_round_range [of p] by blast
      next
        case PInf
        then have "?R = Num (of_int 100)" using c3 3 by simp
        then show ?thesis by (intro exI [of _ 100]) simp
      next
        case NaN
        then show ?thesis using c3 3 by simp
      next
        case NInf
        then show ?thesis using c3 3 by simp
      qed
    qed
  qed
  show ?thesis by (intro conjI c1 c2 c3 c4 convert_examples)
qed

theorem convertMoistureToPercentage_double_witness:
  "isDouble 855 \<and> isDouble 1000 \<and> isDouble 0 \<and> (1000::real) - 855 < pow2 1023
   \<and> js_mul (js_div (js_sub (Num 1000) (Num 855)) (js_sub (Num 1000) (Num 0))) (Num 100)
       = Num (8162774324609023 / 562949953421312)
   \<and> convertMoistureToPercentage (Num 855) (Num 1000) (Num 0) =
       Num (of_int \<lfloor>max 0 (min 100 (8162774324609023 / 562949953421312 :: real)) + 1 / 2\<rfloor>)
   \<and> (\<exists>n. convertMoistureToPercentage (Num 855) (Num 1000) (Num 0) = Num (of_int n)
          \<and> 0 \<le> n \<and> n \<le> 100)"
proof -
  have b: "(1000::real) - 855 < pow2 1023" by (simp add: pow2_def)
  have i: "js_mul (js_div (js_sub (Num 1000) (Num 855)) (js_sub (Num 1000) (Num 0))) (Num 100)
       = Num (8162774324609023 / 562949953421312)"
    by (simp add: js_sub_def js_div_def js_mul_def toDouble_def binade_def roundEven_def
        pow2_def Let_def compute_bitlen)
  show ?thesis
    using convertMoistureToPercentage_double [of 855 1000 0] isDouble_examples b i
    by simp
qed

text \<open>
  The claim as first stated covered all arguments and the exact quotient. With raw
  \<open>NaN\<close> both comparisons are false and the result is \<open>NaN\<close>, which is not in
  [0,100]. With (855,1000,0) the exact interpolation is 14.5, which rounds to 15; the
  function returns 14.
\<close>

theorem calibration_counterexample:
  "convertMoistureToPercentage NaN (Num 595) (Num 239) = NaN
   \<and> \<not> finite_between 0 100 (convertMoistureToPercentage NaN (Num 595) (Num 239))
   \<and> Math_round ((1000 - 855) / (1000 - 0) * 100) = 15
   \<and> convertMoistureToPercentage (Num 855) (Num 1000) (Num 0) = Num 14"
proof -
  have "convertMoistureToPercentage NaN (Num 595) (Num 239) = NaN"
    by (simp add: convertMoistureToPercentage_def interpolation_def js_sub_def js_div_def js_mul_def)
  moreover have "Math_round ((1000 - 855) / (1000 - 0) * 100) = 15"
    by (simp add: Math_round_def)
  ultimately show ?thesis by (simp add: finite_between_def convert_examples)
qed

section \<open>The recommendation: results\<close>

lemma foldl_moistureLevel:
  "foldl (\<lambda>sum reading. sum + moistureLevel reading) a xs = a + sum_list (map moistureLevel xs)"
  by (induction xs arbitrary: a) auto

lemma avgMoisture_nonempty:
  "sensorData \<noteq> [] \<Longrightarrow> avgMoisture sensorData = Num (arithmeticMean sensorData)"
  by (simp add: avgMoisture_def arithmeticMean_def foldl_moistureLevel)

lemma finite_between_Num: "finite_between lo hi (Num x) = (lo \<le> x \<and> x \<le> hi)"
  by (simp add: finite_between_def)

lemma finite_betweenE:
  assumes "finite_between lo hi v"
  obtains x where "v = Num x" "lo \<le> x" "x \<le> hi"
  using assms by (cases v) (auto simp: finite_between_def)

lemma dataQuality_nonempty:
  assumes "sensorData \<noteq> []"
  shows "finite_between 0 1 (dataQuality sensorData)"
proof -
  let ?g = "length (filter (\<lambda>reading. quality reading = good) sensorData)"
  let ?n = "length sensorData"
  have n: "0 < ?n" using assms by simp
  have "?g \<le> ?n" by (rule length_filter_le)
  then have "real ?g / real ?n \<le> 1" using n by simp
  moreover have "0 \<le> real ?g / real ?n" by simp
  moreover have "dataQuality sensorData = Num (real ?g / real ?n)"
    using n by (simp add: dataQuality_def)
  ultimately show ?thesis by (simp add: finite_between_Num)
qed

lemma base_cases:
  assumes "sensorData \<noteq> []"
  shows "(action (baseRecommendation sensorData fs), confidence (baseRecommendation sensorData fs)) =
     (let m = arithmeticMean sensorData; t = targetMoistureOf fs in
      if m < t * 0.4 then (''irrigate_now'', Num 0.9)
      else if m < t * 0.6 then (''irrigate_soon'', Num 0.7)
      else if m < t * 0.8 then (''schedule_irrigation'', Num 0.5)
      else (''none'', Num 0))"
  using assms
  by (simp add: baseRecommendation_def analyzeMoisture_def avgMoisture_nonempty
      initial_recommendation_def Let_def)

lemma base_confidence_range:
  assumes "sensorData \<noteq> []"
  shows "finite_between 0 0.9 (confidence (baseRecommendation sensorData fs))"
  using base_cases [OF assms, of fs] by (auto simp: Let_def finite_between_Num split: if_splits)

lemma analyzeWeather_confidence:
  assumes "finite_between 0 0.9 (confidence r)"
  shows "finite_between (- 0.2) 0.9 (confidence (analyzeWeather weather r))"
  using assms
  by (auto elim!: finite_betweenE simp: analyzeWeather_def Let_def finite_between_Num split: option.splits)

lemma irrigationParameters_confidence:
  "confidence (irrigationParameters sensorData avg target r) = confidence r"
  by (simp add: irrigationParameters_def Let_def)

lemma irrigationParameters_action:
  "action (irrigationParameters sensorData avg target r) = action r"
  by (simp add: irrigationParameters_def Let_def)

lemma irrigationParameters_reasoning:
  "reasoning (irrigationParameters sensorData avg target r) = reasoning r"
  by (simp add: irrigationParameters_def Let_def)

lemma irrigationParameters_timing:
  "timing (irrigationParameters sensorData avg target r) = timing r"
  by (simp add: irrigationParameters_def Let_def)

lemma adjusted_confidence:
  assumes "sensorData \<noteq> []"
  shows "finite_between (- 0.2) 0.9 (confidence (adjustedRecommendation sensorData weather fs))"
  using analyzeWeather_confidence [OF base_confidence_range [OF assms], of weather fs]
  by (simp add: adjustedRecommendation_def irrigationParameters_confidence)

lemma product_range:
  fixes c q :: real
  assumes "- 0.2 \<le> c" "c \<le> 0.9" "0 \<le> q" "q \<le> 1"
  shows "- 0.2 \<le> c * q \<and> c * q \<le> 0.9"
proof (cases "0 \<le> c")
  case True
  then have "c * q \<le> c * 1" using assms by (intro mult_left_mono) auto
  moreover have "0 \<le> c * q" using True assms by simp
  ultimately show ?thesis using assms by simp
next
  case False
  then have "c * 1 \<le> c * q" using assms by (intro mult_left_mono_neg) auto
  moreover have "c * q \<le> 0" using False assms by (simp add: mult_le_0_iff)
  ultimately show ?thesis using assms by simp
qed

lemma final_confidence:
  assumes "sensorData \<noteq> []"
  shows "finite_between (- 0.2) 0.9 (confidence (generateIrrigationRecommendation sensorData weather fs))"
proof -
  from adjusted_confidence [OF assms, of weather fs]
  obtain c where c: "confidence (adjustedRecommendation sensorData weather fs) = Num c"
    "- 0.2 \<le> c" "c \<le> 0.9" by (rule finite_betweenE)
  from dataQuality_nonempty [OF assms]
  obtain q where q: "dataQuality sensorData = Num q" "0 \<le> q" "q \<le> 1" by (rule finite_betweenE)
  from product_range [OF c(2,3) q(2,3)] show ?thesis
    by (simp add: generateIrrigationRecommendation_def adjustConfidence_def c q finite_between_Num)
qed

lemma final_confidence_product:
  "confidence (generateIrrigationRecommendation sensorData weather fs) =
     num_mul (confidence (adjustedRecommendation sensorData weather fs)) (dataQuality sensorData)"
  by (simp add: generateIrrigationRecommendation_def adjustConfidence_def)

lemma num_mul_NaN_right: "num_mul v NaN = NaN"
  by (cases v) simp_all

lemma num_lt_NaN_right: "num_lt v NaN = False"
  by (cases v) simp_all

lemma dataQuality_empty: "dataQuality [] = NaN"
  by (simp add: dataQuality_def)

lemma final_confidence_empty:
  "confidence (generateIrrigationRecommendation [] weather fs) = NaN"
  by (simp add: final_confidence_product dataQuality_empty num_mul_NaN_right)

lemma never_exceeds_one:
  "\<not> num_lt (Num 1) (confidence (generateIrrigationRecommendation sensorData weather fs))"
proof (cases "sensorData = []")
  case True
  then show ?thesis by (simp add: final_confidence_empty)
next
  case False
  from final_confidence [OF False, of weather fs] show ?thesis
    by (auto elim!: finite_betweenE)
qed

lemma analyzeWeather_None: "analyzeWeather None r = r"
  by (simp add: analyzeWeather_def)

subsection \<open>The moisture bands in double precision\<close>

lemma literal_values:
  "literal (9 / 10) = Num (8106479329266893 / 9007199254740992)"
  "literal (4 / 5) = Num (3602879701896397 / 4503599627370496)"
  "literal (7 / 10) = Num (3152519739159347 / 4503599627370496)"
  "literal (1 / 5) = Num (3602879701896397 / 18014398509481984)"
  "literal (2 / 5) = Num (3602879701896397 / 9007199254740992)"
  by (simp_all add: literal_def dbl)

lemma toDouble_1: "toDouble 1 = Num 1"
  by (simp add: dbl)

lemma js_mul_one:
  "js_mul (literal 0.9) (Num 1) = literal 0.9"
  "js_mul (js_sub (literal 0.9) (literal 0.2)) (Num 1) = literal 0.7"
  "js_sub (literal 0.9) (literal 0.2) = literal 0.7"
  "js_mul (literal 0.7) (Num 1) = literal 0.7"
  by (simp_all add: literal_def js_mul_def js_sub_def dbl)

lemma threshold_80: "js_mul (Num 80) (literal (2 / 5)) = Num 32"
  by (simp add: literal_def js_mul_def dbl)

lemma dataQuality_double_all_good:
  assumes "sensorData \<noteq> []" "list_all (\<lambda>reading. quality reading = good) sensorData"
  shows "dataQuality_double sensorData = Num 1"
proof -
  from assms(2) have "filter (\<lambda>reading. quality reading = good) sensorData = sensorData"
    by (simp add: list_all_iff)
  then show ?thesis using assms(1) by (simp add: dataQuality_double_def js_div_def toDouble_1)
qed

lemma num_le_not_lt: "num_le a b \<Longrightarrow> \<not> num_lt b a"
  by (cases a; cases b) simp_all

lemma base_double_cases:
  "(action (baseRecommendation_double sensorData fs),
    confidence (baseRecommendation_double sensorData fs)) =
     (let m = avgMoisture_double sensorData; t = Num (targetMoistureOf fs) in
      if num_lt m (js_mul t (literal 0.4)) then (''irrigate_now'', literal 0.9)
      else if num_lt m (js_mul t (literal 0.6)) then (''irrigate_soon'', literal 0.7)
      else if num_lt m (js_mul t (literal 0.8)) then (''schedule_irrigation'', literal 0.5)
      else (''none'', Num 0))"
  by (simp add: baseRecommendation_double_def analyzeMoisture_double_def
      initial_recommendation_def Let_def)

lemma irrigationParameters_double_keeps:
  "confidence (irrigationParameters_double sensorData avg target r) = confidence r"
  "action (irrigationParameters_double sensorData avg target r) = action r"
  by (simp_all add: irrigationParameters_double_def Let_def)

lemma final_double:
  "action (generateIrrigationRecommendation_double sensorData weather fs) =
     action (analyzeWeather_double weather (baseRecommendation_double sensorData fs))"
  "confidence (generateIrrigationRecommendation_double sensorData weather fs) =
     js_mul (confidence (analyzeWeather_double weather (baseRecommendation_double sensorData fs)))
            (dataQuality_double sensorData)"
  by (simp_all add: generateIrrigationRecommendation_double_def adjustConfidence_double_def
      irrigationParameters_double_keeps)

lemma analyzeWeather_double_no_rain:
  assumes "noRainExpected weather"
  shows "action (analyzeWeather_double weather r) = action r"
    and "confidence (analyzeWeather_double weather r) =
           (if highHumidity weather then js_sub (confidence r) (literal 0.2) else confidence r)"
  using assms
  by (auto simp: analyzeWeather_double_def noRainExpected_def highHumidity_def Let_def
      split: option.splits)

lemma analyzeWeather_double_rain:
  assumes "rainExpected w = Some rainfall"
  shows "action (analyzeWeather_double (Some w) r) = ''postpone''"
    and "confidence (analyzeWeather_double (Some w) r) = literal 0.8"
  using assms by (simp_all add: analyzeWeather_double_def Let_def)

lemma rainExpected_iff:
  "rainExpected w = Some rainfall \<longleftrightarrow>
     (\<exists>rest. forecast w = Some (rainfall # rest)) \<and> 5 < rainfall"
  by (auto simp: rainExpected_def split: option.splits list.splits)

lemma targetMoistureOf_cases:
  assumes "targetMoisture fs = Some t \<and> t \<noteq> 0
         \<or> (targetMoisture fs = None \<or> targetMoisture fs = Some 0) \<and> t = 80"
  shows "targetMoistureOf fs = t"
  using assms by (auto simp: targetMoistureOf_def)

text \<open>
  C4 (amended). With the mean m and the products of the target t computed in double
  precision, the action and the confidence after the moisture bands are selected by the
  tests in this order: m < t * 0.4 gives irrigate_now with 0.9; otherwise m < t * 0.6
  gives irrigate_soon with 0.7; otherwise m < t * 0.8 gives schedule_irrigation with 0.5;
  otherwise none with 0. The target t is \<open>farmSettings.targetMoisture\<close>, or 80 when
  that is absent or 0. In particular, mean 20 with target 80 and no rain above 5 mm in
  the first forecast entry gives the action irrigate_now, and the final confidence is
  0.9 (0.9 - 0.2 when the humidity exceeds 85%) times the data-quality fraction; it is
  0.9, hence at least 0.8, when the humidity does not exceed 85% (or no weather data is
  passed) and every reading has quality good. With rain above 5 mm in the first forecast
  entry the action is postpone and the final confidence 0.8 times the data-quality
  fraction.
\<close>

theorem moisture_bands_double:
  assumes "targetMoisture fs = Some t \<and> t \<noteq> 0
         \<or> (targetMoisture fs = None \<or> targetMoisture fs = Some 0) \<and> t = 80"
  shows "(let m = avgMoisture_double sensorData; b = baseRecommendation_double sensorData fs in
            (num_lt m (js_mul (Num t) (literal 0.4)) \<longrightarrow>
               action b = ''irrigate_now'' \<and> confidence b = literal 0.9)
          \<and> (num_le (js_mul (Num t) (literal 0.4)) m \<and> num_lt m (js_mul (Num t) (literal 0.6)) \<longrightarrow>
               action b = ''irrigate_soon'' \<and> confidence b = literal 0.7)
          \<and> (num_le (js_mul (Num t) (literal 0.4)) m \<and> num_le (js_mul (Num t) (literal 0.6)) m
               \<and> num_lt m (js_mul (Num t) (literal 0.8)) \<longrightarrow>
               action b = ''schedule_irrigation'' \<and> confidence b = literal 0.5)
          \<and> (num_le (js_mul (Num t) (literal 0.4)) m \<and> num_le (js_mul (Num t) (literal 0.6)) m
               \<and> num_le (js_mul (Num t) (literal 0.8)) m \<longrightarrow>
               action b = ''none'' \<and> confidence b = Num 0))
       \<and> (avgMoisture_double sensorData = Num 20 \<and> t = 80 \<and> noRainExpected weather \<longrightarrow>
            action (generateIrrigationRecommendation_double sensorData weather fs) = ''irrigate_now''
          \<and> confidence (generateIrrigationRecommendation_double sensorData weather fs) =
              js_mul (if highHumidity weather then js_sub (literal 0.9) (literal 0.2)
                      else literal 0.9)
                     (dataQuality_double sensorData)
          \<and> (\<not> highHumidity weather \<and> sensorData \<noteq> []
               \<and> list_all (\<lambda>reading. quality reading = good) sensorData \<longrightarrow>
               confidence (generateIrrigationRecommendation_double sensorData weather fs) = literal 0.9
             \<and> num_le (literal 0.8)
                  (confidence (generateIrrigationRecommendation_double sensorData weather fs))))
       \<and> ((\<exists>rest. forecast w = Some (rainfall # rest)) \<and> 5 < rainfall \<longrightarrow>
            action (generateIrrigationRecommendation_double sensorData (Some w) fs) = ''postpone''
          \<and> confidence (generateIrrigationRecommendation_double sensorData (Some w) fs) =
              js_mul (literal 0.8) (dataQuality_double sensorData))"
proof -
  note t = targetMoistureOf_cases [OF assms]
  note bc = base_double_cases [of sensorData fs, unfolded t]
  have bands: "(let m = avgMoisture_double sensorData; b = baseRecommendation_double sensorData fs in
            (num_lt m (js_mul (Num t) (literal 0.4)) \<longrightarrow>
               action b = ''irrigate_now'' \<and> confidence b = literal 0.9)
          \<and> (num_le (js_mul (Num t) (literal 0.4)) m \<and> num_lt m (js_mul (Num t) (literal 0.6)) \<longrightarrow>
               action b = ''irrigate_soon'' \<and> confidence b = literal 0.7)
          \<and> (num_le (js_mul (Num t) (literal 0.4)) m \<and> num_le (js_mul (Num t) (literal 0.6)) m
               \<and> num_lt m (js_mul (Num t) (literal 0.8)) \<longrightarrow>
               action b = ''schedule_irrigation'' \<and> confidence b = literal 0.5)
          \<and> (num_le (js_mul (Num t) (literal 0.4)) m \<and> num_le (js_mul (Num t) (literal 0.6)) m
               \<and> num_le (js_mul (Num t) (literal 0.8)) m \<longrightarrow>
               action b = ''none'' \<and> confidence b = Num 0))"
    using bc by (auto simp: Let_def dest: num_le_not_lt split: if_splits)
  have particular: "action (generateIrrigationRecommendation_double sensorData weather fs) = ''irrigate_now''
          \<and> confidence (generateIrrigationRecommendation_double sensorData weather fs) =
              js_mul (if highHumidity weather then js_sub (literal 0.9) (literal 0.2)
                      else literal 0.9)
                     (dataQuality_double sensorData)
          \<and> (\<not> highHumidity weather \<and> sensorData \<noteq> []
               \<and> list_all (\<lambda>reading. quality reading = good) sensorData \<longrightarrow>
               confidence (generateIrrigationRecommendation_double sensorData weather fs) = literal 0.9
             \<and> num_le (literal 0.8)
                  (confidence (generateIrrigationRecommendation_double sensorData weather fs)))"
    if h: "avgMoisture_double sensorData = Num 20" "t = 80" "noRainExpected weather"
  proof -
    have b: "action (baseRecommendation_double sensorData fs) = ''irrigate_now''"
        "confidence (baseRecommendation_double sensorData fs) = literal 0.9"
      using bc h(1,2) by (simp_all add: Let_def threshold_80)
    have a: "action (generateIrrigationRecommendation_double sensorData weather fs) = ''irrigate_now''"
      by (simp add: final_double analyzeWeather_double_no_rain [OF h(3)] b)
    have c: "confidence (generateIrrigationRecommendation_double sensorData weather fs) =
              js_mul (if highHumidity weather then js_sub (literal 0.9) (literal 0.2)
                      else literal 0.9)
                     (dataQuality_double sensorData)"
      by (simp add: final_double analyzeWeather_double_no_rain [OF h(3)] b)
    have g: "confidence (generateIrrigationRecommendation_double sensorData weather fs) = literal 0.9
             \<and> num_le (literal 0.8)
                  (confidence (generateIrrigationRecommendation_double sensorData weather fs))"
      if "\<not> highHumidity weather" "sensorData \<noteq> []"
         "list_all (\<lambda>reading. quality reading = good) sensorData"
    proof -
      have "confidence (generateIrrigationRecommendation_double sensorData weather fs) = literal 0.9"
        using c that(1) by (simp add: dataQuality_double_all_good [OF that(2,3)] js_mul_one)
      moreover have "num_le (literal 0.8) (literal 0.9)" by (simp add: literal_values)
      ultimately show ?thesis by simp
    qed
    show ?thesis using a c g by blast
  qed
  have rain: "action (generateIrrigationRecommendation_double sensorData (Some w) fs) = ''postpone''
          \<and> confidence (generateIrrigationRecommendation_double sensorData (Some w) fs) =
              js_mul (literal 0.8) (dataQuality_double sensorData)"
    if "(\<exists>rest. forecast w = Some (rainfall # rest)) \<and> 5 < rainfall"
  proof -
    from that have r: "rainExpected w = Some rainfall" by (simp add: rainExpected_iff)
    show ?thesis by (simp add: final_double analyzeWeather_double_rain [OF r])
  qed
  from bands particular rain show ?thesis by blast
qed


lemma sum_examples:
  "js_add (Num 0) (Num 20) = Num 20"
  "js_add (Num 0) (Num 13) = Num 13"
  "js_add (Num 13) (Num 13) = Num 26"
  "js_add (Num 26) (Num 13) = Num 39"
  "js_add (Num 39) (Num 13) = Num 52"
  "js_add (Num 52) (Num 14) = Num 66"
  "js_div (Num 20) (Num 1) = Num 20"
  "js_div (Num 66) (Num 5) = Num (3715469692580659 / 281474976710656)"
  by (simp_all add: js_add_def js_div_def dbl)

lemma avgMoisture_double_examples:
  "avgMoisture_double [\<lparr>moistureLevel = 20, quality = good, zone = Some 3\<rparr>] = Num 20"
  "avgMoisture_double
     [\<lparr>moistureLevel = 13, quality = good, zone = Some 3\<rparr>,
      \<lparr>moistureLevel = 13, quality = good, zone = Some 3\<rparr>,
      \<lparr>moistureLevel = 13, quality = good, zone = Some 2\<rparr>,
      \<lparr>moistureLevel = 13, quality = good, zone = Some 2\<rparr>,
      \<lparr>moistureLevel = 14, quality = good, zone = Some 2\<rparr>]
     = Num (3715469692580659 / 281474976710656)"
  by (simp_all add: avgMoisture_double_def sum_examples)

lemma threshold_examples:
  "js_mul (Num 33) (literal 0.4) = Num (7430939385161319 / 562949953421312)"
  "js_mul (Num 40) (literal 0.4) = Num 16"
  "js_mul (Num 40) (literal 0.6) = Num 24"
  by (simp_all add: literal_def js_mul_def dbl)

theorem moisture_bands_double_witness:
  "action (generateIrrigationRecommendation_double
             [\<lparr>moistureLevel = 20, quality = good, zone = Some 3\<rparr>] None
             \<lparr>targetMoisture = Some 80\<rparr>) = ''irrigate_now''
   \<and> confidence (generateIrrigationRecommendation_double
             [\<lparr>moistureLevel = 20, quality = good, zone = Some 3\<rparr>] None
             \<lparr>targetMoisture = None\<rparr>) = literal 0.9
   \<and> action (baseRecommendation_double
             [\<lparr>moistureLevel = 13, quality = good, zone = Some 3\<rparr>,
              \<lparr>moistureLevel = 13, quality = good, zone = Some 3\<rparr>,
              \<lparr>moistureLevel = 13, quality = good, zone = Some 2\<rparr>,
              \<lparr>moistureLevel = 13, quality = good, zone = Some 2\<rparr>,
              \<lparr>moistureLevel = 14, quality = good, zone = Some 2\<rparr>]
             \<lparr>targetMoisture = Some 33\<rparr>) = ''irrigate_now''
   \<and> action (baseRecommendation_double
             [\<lparr>moistureLevel = 20, quality = good, zone = Some 3\<rparr>]
             \<lparr>targetMoisture = Some 40\<rparr>) = ''irrigate_soon''
   \<and> confidence (baseRecommendation_double
             [\<lparr>moistureLevel = 20, quality = good, zone = Some 3\<rparr>]
             \<lparr>targetMoisture = Some 40\<rparr>) = literal 0.7
   \<and> action (generateIrrigationRecommendation_double
             [\<lparr>moistureLevel = 20, quality = good, zone = Some 3\<rparr>]
             (Some \<lparr>current_humidity = 50, current_temperature = 25, forecast = Some [10]\<rparr>)
             \<lparr>targetMoisture = Some 80\<rparr>) = ''postpone''"
proof -
  let ?r20 = "[\<lparr>moistureLevel = 20, quality = good, zone = Some 3\<rparr>]"
  let ?rs = "[\<lparr>moistureLevel = 13, quality = good, zone = Some 3\<rparr>,
              \<lparr>moistureLevel = 13, quality = good, zone = Some 3\<rparr>,
              \<lparr>moistureLevel = 13, quality = good, zone = Some 2\<rparr>,
              \<lparr>moistureLevel = 13, quality = good, zone = Some 2\<rparr>,
              \<lparr>moistureLevel = 14, quality = good, zone = Some 2\<rparr>]"
  let ?w = "\<lparr>current_humidity = 50, current_temperature = 25, forecast = Some [10]\<rparr>"
  have t80: "targetMoisture \<lparr>targetMoisture = Some 80\<rparr> = Some 80 \<and> (80::real) \<noteq> 0
         \<or> (targetMoisture \<lparr>targetMoisture = Some 80\<rparr> = None
             \<or> targetMoisture \<lparr>targetMoisture = Some 80\<rparr> = Some 0) \<and> (80::real) = 80"
    by simp
  have tNone: "targetMoisture \<lparr>targetMoisture = None\<rparr> = Some 80 \<and> (80::real) \<noteq> 0
         \<or> (targetMoisture \<lparr>targetMoisture = None\<rparr> = None
             \<or> targetMoisture \<lparr>targetMoisture = None\<rparr> = Some 0) \<and> (80::real) = 80"
    by simp
  have t33: "targetMoisture \<lparr>targetMoisture = Some 33\<rparr> = Some 33 \<and> (33::real) \<noteq> 0
         \<or> (targetMoisture \<lparr>targetMoisture = Some 33\<rparr> = None
             \<or> targetMoisture \<lparr>targetMoisture = Some 33\<rparr> = Some 0) \<and> (33::real) = 80"
    by simp
  have t40: "targetMoisture \<lparr>targetMoisture = Some 40\<rparr> = Some 40 \<and> (40::real) \<noteq> 0
         \<or> (targetMoisture \<lparr>targetMoisture = Some 40\<rparr> = None
             \<or> targetMoisture \<lparr>targetMoisture = Some 40\<rparr> = Some 0) \<and> (40::real) = 80"
    by simp
  have m20: "avgMoisture_double ?r20 = Num 20" by (rule avgMoisture_double_examples(1))
  have nr: "noRainExpected None" by (simp add: noRainExpected_def)
  have nh: "\<not> highHumidity None" by (simp add: highHumidity_def)
  have good: "list_all (\<lambda>reading. quality reading = good) ?r20" "?r20 \<noteq> []" by simp_all
  note p80 = moisture_bands_double [where sensorData = ?r20 and weather = None, OF t80,
      THEN conjunct2, THEN conjunct1, rule_format]
  have a: "action (generateIrrigationRecommendation_double ?r20 None \<lparr>targetMoisture = Some 80\<rparr>)
             = ''irrigate_now''"
    using p80 m20 nr by blast
  note pNone = moisture_bands_double [where sensorData = ?r20 and weather = None, OF tNone,
      THEN conjunct2, THEN conjunct1, rule_format]
  have b: "confidence (generateIrrigationRecommendation_double ?r20 None \<lparr>targetMoisture = None\<rparr>)
             = literal 0.9"
    using pNone m20 nr nh good by blast
  note b33 = moisture_bands_double [where sensorData = ?rs, OF t33, THEN conjunct1,
      unfolded Let_def, THEN conjunct1, rule_format]
  have lt33: "num_lt (avgMoisture_double ?rs) (js_mul (Num 33) (literal 0.4))"
    by (simp only: avgMoisture_double_examples threshold_examples) simp
  have c: "action (baseRecommendation_double ?rs \<lparr>targetMoisture = Some 33\<rparr>) = ''irrigate_now''"
    using b33 lt33 by blast
  note b40 = moisture_bands_double [where sensorData = ?r20, OF t40, THEN conjunct1,
      unfolded Let_def, THEN conjunct2, THEN conjunct1, rule_format]
  have in40: "num_le (js_mul (Num 40) (literal 0.4)) (avgMoisture_double ?r20)
            \<and> num_lt (avgMoisture_double ?r20) (js_mul (Num 40) (literal 0.6))"
    by (simp only: avgMoisture_double_examples threshold_examples) simp
  have d: "action (baseRecommendation_double ?r20 \<lparr>targetMoisture = Some 40\<rparr>) = ''irrigate_soon''
         \<and> confidence (baseRecommendation_double ?r20 \<lparr>targetMoisture = Some 40\<rparr>) = literal 0.7"
    using b40 in40 by blast
  note rain = moisture_bands_double [where sensorData = ?r20 and w = ?w and rainfall = 10,
      OF t80, THEN conjunct2, THEN conjunct2, rule_format]
  have f: "(\<exists>rest. forecast ?w = Some (10 # rest)) \<and> (5::real) < 10" by simp
  have e: "action (generateIrrigationRecommendation_double ?r20 (Some ?w)
                     \<lparr>targetMoisture = Some 80\<rparr>) = ''postpone''"
    using rain f by blast
  from a b c d e show ?thesis by (intro conjI) simp_all
qed

text \<open>
  The claim as first stated promised a final confidence of at least 0.8 for mean 20,
  target 80 and no rain, whatever the humidity and the quality of the readings. With a
  humidity of 90% the confidence is 0.9 - 0.2, which is 0.7 in double precision. The
  bands are not those of the exact products either: the readings 13, 13, 13, 13, 14
  have the mean 13.2, which is 0.4 times the target 33, and the action is irrigate_now,
  because \<open>33 * 0.4\<close> is 13.200000000000001 in double precision.
\<close>

theorem low_moisture_confidence_counterexample:
  "avgMoisture_double [\<lparr>moistureLevel = 20, quality = good, zone = Some 3\<rparr>] = Num 20
   \<and> noRainExpected (Some \<lparr>current_humidity = 90, current_temperature = 25, forecast = Some [0]\<rparr>)
   \<and> action (generateIrrigationRecommendation_double
               [\<lparr>moistureLevel = 20, quality = good, zone = Some 3\<rparr>]
               (Some \<lparr>current_humidity = 90, current_temperature = 25, forecast = Some [0]\<rparr>)
               \<lparr>targetMoisture = Some 80\<rparr>) = ''irrigate_now''
   \<and> confidence (generateIrrigationRecommendation_double
               [\<lparr>moistureLevel = 20, quality = good, zone = Some 3\<rparr>]
               (Some \<lparr>current_humidity = 90, current_temperature = 25, forecast = Some [0]\<rparr>)
               \<lparr>targetMoisture = Some 80\<rparr>) = literal 0.7
   \<and> \<not> num_le (literal 0.8)
        (confidence (generateIrrigationRecommendation_double
               [\<lparr>moistureLevel = 20, quality = good, zone = Some 3\<rparr>]
               (Some \<lparr>current_humidity = 90, current_temperature = 25, forecast = Some [0]\<rparr>)
               \<lparr>targetMoisture = Some 80\<rparr>))"
proof -
  let ?r20 = "[\<lparr>moistureLevel = 20, quality = good, zone = Some 3\<rparr>]"
  let ?w = "\<lparr>current_humidity = 90, current_temperature = 25, forecast = Some [0]\<rparr>"
  have n: "noRainExpected (Some ?w)" by (simp add: noRainExpected_def rainExpected_def)
  have h: "highHumidity (Some ?w)" by (simp add: highHumidity_def)
  have b: "action (baseRecommendation_double ?r20 \<lparr>targetMoisture = Some 80\<rparr>) = ''irrigate_now''"
      "confidence (baseRecommendation_double ?r20 \<lparr>targetMoisture = Some 80\<rparr>) = literal 0.9"
    using base_double_cases [of ?r20 "\<lparr>targetMoisture = Some 80\<rparr>"]
    by (simp_all add: avgMoisture_double_examples targetMoistureOf_def threshold_80 Let_def)
  have q: "dataQuality_double ?r20 = Num 1"
    by (rule dataQuality_double_all_good) simp_all
  have a: "action (generateIrrigationRecommendation_double ?r20 (Some ?w) \<lparr>targetMoisture = Some 80\<rparr>)
             = ''irrigate_now''"
    by (simp only: final_double analyzeWeather_double_no_rain [OF n] b)
  have c: "confidence (generateIrrigationRecommendation_double ?r20 (Some ?w) \<lparr>targetMoisture = Some 80\<rparr>)
             = literal 0.7"
    by (simp only: final_double analyzeWeather_double_no_rain [OF n] b h if_True q js_mul_one)
  have "\<not> num_le (literal 0.8) (literal 0.7)" by (simp add: literal_values)
  with a c n show ?thesis by (simp add: avgMoisture_double_examples)
qed

subsection \<open>Aggregation, confidence and missing weather data\<close>

lemma dataQuality_all_poor:
  assumes "sensorData \<noteq> []" "list_all (\<lambda>reading. quality reading = poor) sensorData"
  shows "dataQuality sensorData = Num 0"
proof -
  from assms(2) have "filter (\<lambda>reading. quality reading = good) sensorData = []"
    by (auto simp: list_all_iff filter_empty_conv)
  then show ?thesis using assms(1) by (simp add: dataQuality_def)
qed

text \<open>
  C5 (amended). The moisture aggregate is the arithmetic mean over all readings,
  whatever their quality: a poor reading is never left out, and there is no separate
  0.1 penalty. Quality enters only through the final data-quality multiplier, so when
  every reading is poor the final confidence is 0.
\<close>

theorem mean_over_all_readings:
  assumes "sensorData \<noteq> []"
  shows "avgMoisture sensorData = Num (arithmeticMean sensorData)
       \<and> (list_all (\<lambda>reading. quality reading = poor) sensorData \<longrightarrow>
            confidence (generateIrrigationRecommendation sensorData weather fs) = Num 0)"
proof -
  have "confidence (generateIrrigationRecommendation sensorData weather fs) = Num 0"
    if "list_all (\<lambda>reading. quality reading = poor) sensorData"
  proof -
    from adjusted_confidence [OF assms, of weather fs]
    obtain c where "confidence (adjustedRecommendation sensorData weather fs) = Num c"
      by (rule finite_betweenE)
    then show ?thesis
      by (simp add: final_confidence_product dataQuality_all_poor [OF assms that])
  qed
  then show ?thesis using avgMoisture_nonempty [OF assms] by simp
qed

theorem mean_over_all_readings_witness:
  "avgMoisture [\<lparr>moistureLevel = 10, quality = poor, zone = None\<rparr>,
                \<lparr>moistureLevel = 30, quality = poor, zone = None\<rparr>] = Num 20
   \<and> confidence (generateIrrigationRecommendation
        [\<lparr>moistureLevel = 10, quality = poor, zone = None\<rparr>,
         \<lparr>moistureLevel = 30, quality = poor, zone = None\<rparr>] None \<lparr>targetMoisture = Some 80\<rparr>) = Num 0"
  using mean_over_all_readings [of "[\<lparr>moistureLevel = 10, quality = poor, zone = None\<rparr>,
         \<lparr>moistureLevel = 30, quality = poor, zone = None\<rparr>]" None "\<lparr>targetMoisture = Some 80\<rparr>"]
  by (simp add: arithmeticMean_def)

text \<open>
  The claim as first stated left poor readings out of the mean when a non-poor reading
  exists. For a poor reading of 0 and a good reading of 100 the program's mean is 50,
  where the aggregate of the claim is 100.
\<close>

theorem poor_reading_in_mean_counterexample:
  "avgMoisture [\<lparr>moistureLevel = 0, quality = poor, zone = None\<rparr>,
                \<lparr>moistureLevel = 100, quality = good, zone = None\<rparr>] = Num 50
   \<and> aggregate_spec [\<lparr>moistureLevel = 0, quality = poor, zone = None\<rparr>,
                     \<lparr>moistureLevel = 100, quality = good, zone = None\<rparr>] = 100"
  by (simp add: avgMoisture_def aggregate_spec_def arithmeticMean_def)

text \<open>
  C6 (amended). The final confidence is the band- and forecast-adjusted confidence
  multiplied by the data-quality fraction of the readings. The product is not clamped.
  It never exceeds 1; for non-empty input the fraction lies in [0,1] and the final
  confidence lies between -0.2 and 0.9.
\<close>

theorem confidence_product:
  "confidence (generateIrrigationRecommendation sensorData weather fs) =
     num_mul (confidence (adjustedRecommendation sensorData weather fs)) (dataQuality sensorData)
   \<and> \<not> num_lt (Num 1) (confidence (generateIrrigationRecommendation sensorData weather fs))
   \<and> (sensorData \<noteq> [] \<longrightarrow>
        finite_between 0 1 (dataQuality sensorData)
      \<and> finite_between (- 0.2) 0.9 (confidence (generateIrrigationRecommendation sensorData weather fs)))"
  using final_confidence_product [of sensorData weather fs]
    never_exceeds_one [of sensorData weather fs]
    dataQuality_nonempty [of sensorData] final_confidence [of sensorData weather fs]
  by blast

theorem confidence_product_witness:
  "confidence (generateIrrigationRecommendation
      [\<lparr>moistureLevel = 20, quality = good, zone = None\<rparr>,
       \<lparr>moistureLevel = 20, quality = poor, zone = None\<rparr>] None \<lparr>targetMoisture = Some 80\<rparr>)
    = Num 0.45
   \<and> dataQuality [\<lparr>moistureLevel = 20, quality = good, zone = None\<rparr>,
       \<lparr>moistureLevel = 20, quality = poor, zone = None\<rparr>] = Num 0.5
   \<and> confidence (adjustedRecommendation
      [\<lparr>moistureLevel = 20, quality = good, zone = None\<rparr>,
       \<lparr>moistureLevel = 20, quality = poor, zone = None\<rparr>] None \<lparr>targetMoisture = Some 80\<rparr>)
    = Num 0.9"
  using confidence_product [of "[\<lparr>moistureLevel = 20, quality = good, zone = None\<rparr>,
       \<lparr>moistureLevel = 20, quality = poor, zone = None\<rparr>]" None "\<lparr>targetMoisture = Some 80\<rparr>"]
  by (simp add: adjustedRecommendation_def baseRecommendation_def avgMoisture_def
      dataQuality_def targetMoistureOf_def analyzeMoisture_def analyzeWeather_def
      irrigationParameters_def initial_recommendation_def zoneOf_def Let_def)

text \<open>
  The claim as first stated had the final confidence clamped to [0,1], so never
  negative. For one good reading of 90 with target 80 and a humidity of 90% the band
  gives confidence 0, the humidity adjustment subtracts 0.2, and the result is -0.2.
\<close>

theorem negative_confidence_counterexample:
  "confidence (generateIrrigationRecommendation
      [\<lparr>moistureLevel = 90, quality = good, zone = None\<rparr>]
      (Some \<lparr>current_humidity = 90, current_temperature = 25, forecast = Some [0]\<rparr>)
      \<lparr>targetMoisture = Some 80\<rparr>) = Num (- 0.2)
   \<and> num_lt (confidence (generateIrrigationRecommendation
      [\<lparr>moistureLevel = 90, quality = good, zone = None\<rparr>]
      (Some \<lparr>current_humidity = 90, current_temperature = 25, forecast = Some [0]\<rparr>)
      \<lparr>targetMoisture = Some 80\<rparr>)) (Num 0)"
  by (simp add: generateIrrigationRecommendation_def adjustedRecommendation_def
      adjustConfidence_def baseRecommendation_def avgMoisture_def dataQuality_def
      targetMoistureOf_def analyzeMoisture_def analyzeWeather_def rainExpected_def
      irrigationParameters_def initial_recommendation_def zoneOf_def Let_def)

text \<open>
  C9 (amended). When no weather data is available (\<open>weatherData\<close> is null) the
  function still returns a recommendation, computed from the sensor data alone: the
  weather block is skipped, so action, reasoning and timing are those of the moisture
  bands and the confidence is the band confidence times the data-quality fraction.
  No penalty is applied for the missing forecast and nothing is added to the result.
\<close>

theorem no_weather_data:
  "generateIrrigationRecommendation sensorData None fs =
     adjustConfidence sensorData
       (irrigationParameters sensorData (avgMoisture sensorData) (targetMoistureOf fs)
          (baseRecommendation sensorData fs))
   \<and> action (generateIrrigationRecommendation sensorData None fs) =
       action (baseRecommendation sensorData fs)
   \<and> confidence (generateIrrigationRecommendation sensorData None fs) =
       num_mul (confidence (baseRecommendation sensorData fs)) (dataQuality sensorData)
   \<and> reasoning (generateIrrigationRecommendation sensorData None fs) =
       reasoning (baseRecommendation sensorData fs)
   \<and> timing (generateIrrigationRecommendation sensorData None fs) = None"
  by (simp add: generateIrrigationRecommendation_def adjustedRecommendation_def
      adjustConfidence_def analyzeWeather_None irrigationParameters_confidence
      irrigationParameters_action irrigationParameters_reasoning irrigationParameters_timing
      baseRecommendation_def analyzeMoisture_def initial_recommendation_def)

text \<open>
  The claim as first stated had a confidence penalty and an informational alert added
  when the forecast is unavailable. The result without weather data is equal to the
  result with a forecast that triggers no adjustment: confidence 0.9 and the one
  reason of the moisture band.
\<close>

theorem no_weather_penalty_counterexample:
  "generateIrrigationRecommendation [\<lparr>moistureLevel = 20, quality = good, zone = Some 1\<rparr>]
      None \<lparr>targetMoisture = Some 80\<rparr>
   = generateIrrigationRecommendation [\<lparr>moistureLevel = 20, quality = good, zone = Some 1\<rparr>]
      (Some \<lparr>current_humidity = 50, current_temperature = 20, forecast = Some [0]\<rparr>)
      \<lparr>targetMoisture = Some 80\<rparr>
   \<and> confidence (generateIrrigationRecommendation
        [\<lparr>moistureLevel = 20, quality = good, zone = Some 1\<rparr>] None \<lparr>targetMoisture = Some 80\<rparr>)
     = Num 0.9
   \<and> reasoning (generateIrrigationRecommendation
        [\<lparr>moistureLevel = 20, quality = good, zone = Some 1\<rparr>] None \<lparr>targetMoisture = Some 80\<rparr>)
     = [Critical_moisture_level (Num 20) 80]"
  by (simp add: generateIrrigationRecommendation_def adjustedRecommendation_def
      adjustConfidence_def baseRecommendation_def avgMoisture_def dataQuality_def
      targetMoistureOf_def analyzeMoisture_def analyzeWeather_def rainExpected_def
      irrigationParameters_def initial_recommendation_def zoneOf_def Let_def Math_round_def)

section \<open>Sensor readings: results\<close>


text \<open>
  The program's score and the specification's score agree on every reading whose
  temperature and humidity are not the number 0.
\<close>

lemma qualityScore_agrees:
  assumes "readings_temperature doc \<noteq> Some 0" "readings_humidity doc \<noteq> Some 0"
  shows "qualityScore doc = qualityScore_spec doc"
  using assms
  by (auto simp: qualityScore_def qualityScore_spec_def truthy_def Let_def split: option.splits)

text \<open>
  C8. A reading with a temperature of 0 degrees (a value within the schema bounds, so
  the reading is accepted), humidity 50%, battery 50% and signal -75 dBm: the program
  treats the temperature as missing, scores 85 and stores the band good; the claim's
  score is 90, whose band is excellent.
\<close>

theorem zero_temperature_quality:
  "validReading \<lparr>sensorId = 1, readings_moistureLevel = 45, readings_temperature = Some 0,
         readings_humidity = Some 50, readings_batteryLevel = 50,
         readings_signalStrength = Some (- 75), timestamp = 0, reading_quality = good,
         alerts = []\<rparr>
   \<and> qualityScore \<lparr>sensorId = 1, readings_moistureLevel = 45, readings_temperature = Some 0,
         readings_humidity = Some 50, readings_batteryLevel = 50,
         readings_signalStrength = Some (- 75), timestamp = 0, reading_quality = good,
         alerts = []\<rparr> = 85
   \<and> reading_quality (determineQuality \<lparr>sensorId = 1, readings_moistureLevel = 45, readings_temperature = Some 0,
         readings_humidity = Some 50, readings_batteryLevel = 50,
         readings_signalStrength = Some (- 75), timestamp = 0, reading_quality = good,
         alerts = []\<rparr>) = good
   \<and> qualityScore_spec \<lparr>sensorId = 1, readings_moistureLevel = 45, readings_temperature = Some 0,
         readings_humidity = Some 50, readings_batteryLevel = 50,
         readings_signalStrength = Some (- 75), timestamp = 0, reading_quality = good,
         alerts = []\<rparr> = 90
   \<and> qualityBand 90 = excellent"
  by (simp add: validReading_def inRange_def qualityScore_def qualityScore_spec_def truthy_def
      determineQuality_def qualityBand_def Let_def)

lemma alert_fns_ignore_alerts:
  "moistureAlerts s (doc\<lparr>alerts := old\<rparr>) = moistureAlerts s doc"
  "batteryAlerts s (doc\<lparr>alerts := old\<rparr>) = batteryAlerts s doc"
  "sensorErrorAlerts (doc\<lparr>alerts := old\<rparr>) = sensorErrorAlerts doc"
  by (simp_all add: moistureAlerts_def batteryAlerts_def sensorErrorAlerts_def)

text \<open>
  C7 (amended). Alerts are embedded in the reading that raised them. When the sensor
  of a reading is found, saving the reading rebuilds its alert list from nothing: the
  list holds at most one alert of each type, every alert in it is unacknowledged, and
  the alerts the document carried before have no influence. Alerts are not matched
  against the alerts of other readings.
\<close>

theorem reading_alerts_rebuilt:
  assumes "sensors (sensorId doc) = Some s"
  shows "distinct (map alert_type (alerts (generateAlerts sensors now doc)))
       \<and> list_all (\<lambda>a. \<not> acknowledged a) (alerts (generateAlerts sensors now doc))
       \<and> generateAlerts sensors now (doc\<lparr>alerts := old\<rparr>) = generateAlerts sensors now doc"
proof -
  have ga: "alerts (generateAlerts sensors now doc) =
     moistureAlerts s doc @ batteryAlerts s doc @ sensorErrorAlerts doc @ calibrationAlerts now s"
    using assms by (simp add: generateAlerts_def)
  have d: "distinct (map alert_type (alerts (generateAlerts sensors now doc)))"
    by (auto simp: ga moistureAlerts_def batteryAlerts_def sensorErrorAlerts_def
        calibrationAlerts_def)
  have u: "list_all (\<lambda>a. \<not> acknowledged a) (alerts (generateAlerts sensors now doc))"
    by (auto simp: ga moistureAlerts_def batteryAlerts_def sensorErrorAlerts_def
        calibrationAlerts_def)
  have r: "generateAlerts sensors now (doc\<lparr>alerts := old\<rparr>) = generateAlerts sensors now doc"
    using assms by (simp add: generateAlerts_def alert_fns_ignore_alerts)
  from d u r show ?thesis by simp
qed


theorem reading_alerts_rebuilt_witness:
  "alerts (generateAlerts
      (\<lambda>i. if i = 1 then Some \<lparr>moistureThreshold_enabled = True, moistureThreshold_low = 30,
                 moistureThreshold_high = 90, lowBattery_enabled = True,
                 lowBattery_threshold = 20, calibration_lastCalibrated = 0\<rparr> else None)
      1000
      \<lparr>sensorId = 1, readings_moistureLevel = 25, readings_temperature = Some 20,
       readings_humidity = Some 50, readings_batteryLevel = 15,
       readings_signalStrength = Some (- 60), timestamp = 1000, reading_quality = good,
       alerts = []\<rparr>)
   = [\<lparr>alert_type = low_moisture, alert_severity = critical, message = Critical_moisture 25,
       acknowledged = False\<rparr>,
      \<lparr>alert_type = low_battery, alert_severity = warning, message = Low_battery 15,
       acknowledged = False\<rparr>]
   \<and> distinct [low_moisture, low_battery]"
  using reading_alerts_rebuilt [of
      "\<lambda>i. if i = 1 then Some \<lparr>moistureThreshold_enabled = True, moistureThreshold_low = 30,
                 moistureThreshold_high = 90, lowBattery_enabled = True,
                 lowBattery_threshold = 20, calibration_lastCalibrated = 0\<rparr> else None"
      "\<lparr>sensorId = 1, readings_moistureLevel = 25, readings_temperature = Some 20,
       readings_humidity = Some 50, readings_batteryLevel = 15,
       readings_signalStrength = Some (- 60), timestamp = 1000, reading_quality = good,
       alerts = []\<rparr>" _ 1000 "[]"]
  by (simp add: generateAlerts_def moistureAlerts_def batteryAlerts_def sensorErrorAlerts_def
      calibrationAlerts_def daysSinceCalibration_def)

text \<open>
  The claim as first stated: never two unacknowledged alerts with the same subject and
  type. Two readings of sensor 1 with a moisture at or below the low threshold, saved
  one after the other, leave two unacknowledged low_moisture alerts for the sensor, the
  earlier one unchanged.
\<close>

theorem duplicate_pending_alerts_counterexample:
  "(case saveReadings
      (\<lambda>i. if i = 1 then Some \<lparr>moistureThreshold_enabled = True, moistureThreshold_low = 30,
                 moistureThreshold_high = 90, lowBattery_enabled = True,
                 lowBattery_threshold = 20, calibration_lastCalibrated = 0\<rparr> else None)
      []
      [(1000, \<lparr>sensorId = 1, readings_moistureLevel = 25, readings_temperature = Some 20,
              readings_humidity = Some 50, readings_batteryLevel = 80,
              readings_signalStrength = Some (- 60), timestamp = 1000, reading_quality = good,
              alerts = []\<rparr>),
       (2000, \<lparr>sensorId = 1, readings_moistureLevel = 20, readings_temperature = Some 20,
              readings_humidity = Some 50, readings_batteryLevel = 80,
              readings_signalStrength = Some (- 60), timestamp = 2000, reading_quality = good,
              alerts = []\<rparr>)] of
      Inl err \<Rightarrow> []
    | Inr collection \<Rightarrow>
        map (\<lambda>(a, t). (alert_type a, alert_severity a, acknowledged a, t))
            (pendingAlerts collection 1))
   = [(low_moisture, critical, False, 1000), (low_moisture, critical, False, 2000)]"
  by (simp add: saveReading_def validReading_def inRange_def determineQuality_def
      generateAlerts_def moistureAlerts_def batteryAlerts_def sensorErrorAlerts_def
      calibrationAlerts_def daysSinceCalibration_def pendingAlerts_def)

section \<open>Irrigation events: results\<close>


lemma js_add_0: "js_add (Num 0) (Num 0) = Num 0"
  by (simp add: js_add_def toDouble_0)












lemma sample_valid:
  "validEvent sampleRun"
  by (simp add: validEvent_def validType_def validTriggerReason_def validEfficiency_def
      sampleRun_def)

lemma sample_preSave:
  "preSaveCalculate (sampleRun\<lparr>status := s, schedule_actualStartTime := a,
       schedule_actualEndTime := b, results_waterUsed := u, results_efficiency := f\<rparr>) =
     sampleRun\<lparr>status := s, schedule_actualStartTime := a,
       schedule_actualEndTime := b, results_waterUsed := u, results_efficiency := f\<rparr>"
  by (simp add: preSaveCalculate_def truthyPlanned_def sampleRun_def js_add_0 Let_def)




lemma sample_zones_ok:
  "preSaveValidateZones sampleFarms
     (sampleRun\<lparr>status := s, schedule_actualStartTime := a,
        schedule_actualEndTime := b, results_waterUsed := u, results_efficiency := f\<rparr>) =
   Inr (sampleRun\<lparr>status := s, schedule_actualStartTime := a,
        schedule_actualEndTime := b, results_waterUsed := u, results_efficiency := f\<rparr>)"
  by (simp add: preSaveValidateZones_def sampleFarms_def sampleFarm_def sampleRun_def Let_def)






























end
